theory Spec2Isabelle
  imports Main "HOL-Library.Sublist"
begin

section \<open>Values of the request payload\<close>

text \<open>
  The ticket service receives its field payload as decoded JSON, so a value is one of
  Python's \<open>None\<close>, \<open>bool\<close>, \<open>int\<close>, \<open>float\<close>, \<open>str\<close>, \<open>list\<close> or \<open>dict\<close>.
  A \<open>dict\<close> is an association list in insertion order; a decoded JSON object never
  repeats a key. The program never computes with a \<open>float\<close>: it is carried as an
  opaque mantissa and exponent.
\<close>

datatype json =
    JNull
  | JBool bool
  | JInt int
  | JFloat int int
  | JStr string
  | JArr "json list"
  | JObj "(string \<times> json) list"

type_synonym dict = "(string \<times> json) list"

text \<open>The exceptions that the modelled code can raise or meet.\<close>

datatype exn =
    TypeError
  | KeyError string
  | HttpError int json
  | HTTPException nat
  | OtherError

text \<open>Python's truth value of a decoded value, as used by \<open>if x:\<close> and \<open>not x\<close>.\<close>

fun truthy :: "json \<Rightarrow> bool" where
  "truthy JNull = False"
| "truthy (JBool b) = b"
| "truthy (JInt i) = (i \<noteq> 0)"
| "truthy (JFloat m e) = (m \<noteq> 0)"
| "truthy (JStr s) = (s \<noteq> [])"
| "truthy (JArr xs) = (xs \<noteq> [])"
| "truthy (JObj m) = (m \<noteq> [])"

text \<open>\<open>d[k] = v\<close> on a dict: an existing key keeps its position, a new key is appended.\<close>

fun dict_set :: "string \<Rightarrow> json \<Rightarrow> dict \<Rightarrow> dict" where
  "dict_set k v [] = [(k, v)]"
| "dict_set k v ((k', v') # m) = (if k' = k then (k, v) # m else (k', v') # dict_set k v m)"

text \<open>\<open>{**d, **value}\<close>: a copy of \<open>d\<close> into which the items of \<open>value\<close> are stored in order.\<close>

fun dict_merge :: "dict \<Rightarrow> dict \<Rightarrow> dict" where
  "dict_merge d [] = d"
| "dict_merge d ((k, v) # m) = dict_merge (dict_set k v d) m"

text \<open>
  \<open>key in data\<close> for a string key: membership of the key in a dict, substring test on a
  \<open>str\<close>, element test on a \<open>list\<close>; every other value is not iterable.
\<close>

fun py_contains :: "json \<Rightarrow> string \<Rightarrow> exn + bool" where
  "py_contains (JObj m) k = Inr (map_of m k \<noteq> None)"
| "py_contains (JStr s) k = Inr (sublist k s)"
| "py_contains (JArr xs) k = Inr (JStr k \<in> set xs)"
| "py_contains JNull k = Inl TypeError"
| "py_contains (JBool b) k = Inl TypeError"
| "py_contains (JInt i) k = Inl TypeError"
| "py_contains (JFloat m e) k = Inl TypeError"

text \<open>
  \<open>data[key]\<close> for a string key: the stored value of a dict (\<open>KeyError\<close> when absent);
  a \<open>str\<close> or \<open>list\<close> takes integer indices only and every other value is not
  subscriptable.
\<close>

fun py_getitem :: "json \<Rightarrow> string \<Rightarrow> exn + json" where
  "py_getitem (JObj m) k = (case map_of m k of None \<Rightarrow> Inl (KeyError k) | Some v \<Rightarrow> Inr v)"
| "py_getitem JNull k = Inl TypeError"
| "py_getitem (JBool b) k = Inl TypeError"
| "py_getitem (JInt i) k = Inl TypeError"
| "py_getitem (JFloat m e) k = Inl TypeError"
| "py_getitem (JStr s) k = Inl TypeError"
| "py_getitem (JArr xs) k = Inl TypeError"

section \<open>The field normaliser \<open>handle_options\<close>\<close>

definition seat_defaults :: dict where
  "seat_defaults = [(''row'', JStr ''0''), (''seat_no'', JStr ''0'')]"

definition defaults :: dict where
  "defaults =
    [(''event_name'', JStr ''Event Name''),
     (''banner'', JStr ''https://farm4.staticflickr.com/3723/11177041115_6e6a3b6f49_o.jpg''),
     (''main_image'', JStr ''http://farm4.staticflickr.com/3738/12440799783_3dc3c20606_b.jpg''),
     (''google_map_url'', JStr ''http://maps.google.com/''),
     (''header_text'', JStr ''Text module header''),
     (''body_text'', JStr ''Text module body''),
     (''phone_number'', JStr ''9876543210''),
     (''section'', JStr ''0''),
     (''issuer_name'', JStr ''Issuer Name''),
     (''gate'', JStr ''0''),
     (''ticket_number'', JStr ''ABC123456789''),
     (''ticket_holder_name'', JStr ''Ticket Holder Name''),
     (''seat'', JObj seat_defaults)]"

text \<open>
  The inner loop \<open>for sub_key in default_value\<close>: a sub-key that the caller supplied as
  the empty string is set back to its default in the merged dict.
\<close>

fun reset_empty :: "dict \<Rightarrow> dict \<Rightarrow> dict \<Rightarrow> dict" where
  "reset_empty [] val merged = merged"
| "reset_empty ((sub_key, dv) # rest) val merged =
     reset_empty rest val
       (if map_of val sub_key = Some (JStr []) then dict_set sub_key dv merged else merged)"

text \<open>
  \<open>{**default_value, **value}\<close> followed by the inner loop. Unpacking with \<open>**\<close> needs
  a mapping, so a default that is a \<open>str\<close> raises \<open>TypeError\<close>.
\<close>

fun merge_nested :: "json \<Rightarrow> dict \<Rightarrow> exn + json" where
  "merge_nested (JObj d) val = Inr (JObj (reset_empty d val (dict_merge d val)))"
| "merge_nested JNull val = Inl TypeError"
| "merge_nested (JBool b) val = Inl TypeError"
| "merge_nested (JInt i) val = Inl TypeError"
| "merge_nested (JFloat m e) val = Inl TypeError"
| "merge_nested (JStr s) val = Inl TypeError"
| "merge_nested (JArr xs) val = Inl TypeError"

text \<open>The dispatch on the type of the supplied value: \<open>str\<close>, \<open>dict\<close>, anything else.\<close>

fun store_value :: "string \<Rightarrow> json \<Rightarrow> json \<Rightarrow> dict \<Rightarrow> exn + dict" where
  "store_value key dv (JStr s) result =
     Inr (if s = [] then dict_set key dv result else dict_set key (JStr s) result)"
| "store_value key dv (JObj val) result =
     (case merge_nested dv val of
        Inl e \<Rightarrow> Inl e
      | Inr merged \<Rightarrow> Inr (dict_set key merged result))"
| "store_value key dv JNull result = Inr (dict_set key JNull result)"
| "store_value key dv (JBool b) result = Inr (dict_set key (JBool b) result)"
| "store_value key dv (JInt i) result = Inr (dict_set key (JInt i) result)"
| "store_value key dv (JFloat m e) result = Inr (dict_set key (JFloat m e) result)"
| "store_value key dv (JArr xs) result = Inr (dict_set key (JArr xs) result)"

text \<open>One round of the outer loop, for one default field.\<close>

definition handle_field :: "string \<Rightarrow> json \<Rightarrow> json \<Rightarrow> dict \<Rightarrow> exn + dict" where
  "handle_field key dv data result =
     (case py_contains data key of
        Inl e \<Rightarrow> Inl e
      | Inr False \<Rightarrow> Inr result
      | Inr True \<Rightarrow>
          (case py_getitem data key of
             Inl e \<Rightarrow> Inl e
           | Inr val \<Rightarrow> store_value key dv val result))"

text \<open>The outer loop \<open>for key, default_value in defaults.items()\<close>; an exception ends it.\<close>

fun handle_loop :: "dict \<Rightarrow> json \<Rightarrow> dict \<Rightarrow> exn + dict" where
  "handle_loop [] data result = Inr result"
| "handle_loop ((key, dv) # rest) data result =
     (case handle_field key dv data result of
        Inl e \<Rightarrow> Inl e
      | Inr result' \<Rightarrow> handle_loop rest data result')"

definition handle_options :: "json \<Rightarrow> exn + dict" where
  "handle_options data = handle_loop defaults data defaults"

section \<open>The wallet collaborator \<open>DemoEventTicket\<close>\<close>

text \<open>
  The collaborator talks to the wallet backend through the vendor client and signs the
  save link with the service-account key. The backend and the key file are outside the
  program: each outbound operation is a function of the outside world \<open>'w\<close> that
  answers with a value or an exception and leaves a new world. An insert receives the
  resource identifiers and the field values that the request body is built from.
\<close>

record 'w wallet_client =
  class_get :: "string \<Rightarrow> 'w \<Rightarrow> (exn + json) \<times> 'w"
  class_insert :: "string \<Rightarrow> json list \<Rightarrow> 'w \<Rightarrow> (exn + json) \<times> 'w"
  object_get :: "string \<Rightarrow> 'w \<Rightarrow> (exn + json) \<times> 'w"
  object_insert :: "string \<Rightarrow> string \<Rightarrow> json list \<Rightarrow> 'w \<Rightarrow> (exn + json) \<times> 'w"
  jwt_sign :: "string \<Rightarrow> string \<Rightarrow> 'w \<Rightarrow> (exn + string) \<times> 'w"

text \<open>The operations performed so far are recorded next to the world, in order.\<close>

datatype wallet_op =
    ClassGet string
  | ClassInsert string
  | ObjectGet string
  | ObjectInsert string string
  | JwtSign string string

type_synonym 'w state = "'w \<times> wallet_op list"

definition execute ::
  "wallet_op \<Rightarrow> ('w \<Rightarrow> (exn + 'a) \<times> 'w) \<Rightarrow> 'w state \<Rightarrow> (exn + 'a) \<times> 'w state" where
  "execute opn f st = (case f (fst st) of (res, w) \<Rightarrow> (res, (w, snd st @ [opn])))"

text \<open>Evaluating the entries of a literal from left to right; the first exception wins.\<close>

fun read_all :: "(exn + 'a) list \<Rightarrow> exn + 'a list" where
  "read_all [] = Inr []"
| "read_all (x # xs) =
     (case x of
        Inl e \<Rightarrow> Inl e
      | Inr v \<Rightarrow> (case read_all xs of Inl e \<Rightarrow> Inl e | Inr vs \<Rightarrow> Inr (v # vs)))"

text \<open>\<open>data[k][sub]\<close>.\<close>

definition py_getitem2 :: "json \<Rightarrow> string \<Rightarrow> string \<Rightarrow> exn + json" where
  "py_getitem2 data k sub =
     (case py_getitem data k of Inl e \<Rightarrow> Inl e | Inr inner \<Rightarrow> py_getitem inner sub)"

text \<open>The field values read while the literal \<open>new_class\<close> is built.\<close>

definition new_class_values :: "dict \<Rightarrow> exn + json list" where
  "new_class_values data =
     read_all [py_getitem (JObj data) ''event_name'', py_getitem (JObj data) ''issuer_name'']"

definition insert_class :: "'w wallet_client \<Rightarrow> string \<Rightarrow> string \<Rightarrow> dict \<Rightarrow> 'w state \<Rightarrow>
    (exn + dict) \<times> 'w state" where
  "insert_class cl issuer_id class_suffix data st =
     (case new_class_values data of
        Inl e \<Rightarrow> (Inl e, st)
      | Inr vals \<Rightarrow>
          (case execute (ClassInsert (issuer_id @ ''.'' @ class_suffix))
                  (class_insert cl (issuer_id @ ''.'' @ class_suffix) vals) st of
             (Inl e, st') \<Rightarrow> (Inl e, st')
           | (Inr response, st') \<Rightarrow>
               (Inr [(''status'', JStr ''created''),
                     (''message'', JStr ''Class successfully created.''),
                     (''issuer_id'', JStr issuer_id),
                     (''class_suffix'', JStr class_suffix),
                     (''class_id'', JStr (issuer_id @ ''.'' @ class_suffix)),
                     (''response'', response),
                     (''has_error'', JBool False)], st')))"

definition ticket_create_class :: "'w wallet_client \<Rightarrow> string \<Rightarrow> string \<Rightarrow> dict \<Rightarrow> 'w state \<Rightarrow>
    (exn + dict) \<times> 'w state" where
  "ticket_create_class cl issuer_id class_suffix data st =
     (case execute (ClassGet (issuer_id @ ''.'' @ class_suffix))
             (class_get cl (issuer_id @ ''.'' @ class_suffix)) st of
        (Inr found, st') \<Rightarrow>
          (Inr [(''status'', JStr ''exists''),
                (''message'', JStr ''The class already exists.''),
                (''issuer_id'', JStr issuer_id),
                (''class_suffix'', JStr class_suffix),
                (''class_id'', JStr (issuer_id @ ''.'' @ class_suffix)),
                (''has_error'', JBool True)], st')
      | (Inl e, st') \<Rightarrow>
          (case e of
             HttpError status_code error_details \<Rightarrow>
               if status_code = 400 then
                 (Inr [(''status'', JStr ''invalid_request''),
                       (''message'', JStr ''Invalid resource ID.''),
                       (''error'', error_details),
                       (''has_error'', JBool True)], st')
               else if status_code \<noteq> 404 then
                 (Inr [(''status'', JStr ''error''),
                       (''message'', JStr (''An unexpected error occurred while checking class '' @
                                          ''existence. Please try again later.'')),
                       (''has_error'', JBool True)], st')
               else insert_class cl issuer_id class_suffix data st'
           | _ \<Rightarrow> (Inl e, st')))"

text \<open>The field values read while the literal \<open>new_object\<close> is built, in order.\<close>

definition new_object_values :: "dict \<Rightarrow> exn + json list" where
  "new_object_values data =
     read_all
       [py_getitem (JObj data) ''banner'',
        py_getitem (JObj data) ''banner'',
        py_getitem (JObj data) ''header_text'',
        py_getitem (JObj data) ''body_text'',
        py_getitem (JObj data) ''google_map_url'',
        py_getitem (JObj data) ''phone_number'',
        py_getitem (JObj data) ''main_image'',
        py_getitem2 (JObj data) ''seat'' ''seat_no'',
        py_getitem2 (JObj data) ''seat'' ''row'',
        py_getitem (JObj data) ''section'',
        py_getitem (JObj data) ''gate'',
        py_getitem (JObj data) ''ticket_holder_name'',
        py_getitem (JObj data) ''ticket_number'']"

definition response_details0 :: "string \<Rightarrow> string \<Rightarrow> dict" where
  "response_details0 issuer_id object_suffix =
     [(''object_id'', JStr (issuer_id @ ''.'' @ object_suffix)),
      (''status'', JStr ''unknown''),
      (''message'', JStr []),
      (''has_error'', JBool True)]"

text \<open>
  The insert of the object. An \<open>HttpError\<close> other than 404 is caught and leaves
  \<open>response_details\<close> as it was initialised.
\<close>

definition insert_object :: "'w wallet_client \<Rightarrow> string \<Rightarrow> string \<Rightarrow> string \<Rightarrow> dict \<Rightarrow>
    'w state \<Rightarrow> (exn + dict) \<times> 'w state" where
  "insert_object cl issuer_id class_suffix object_suffix data st =
     (case new_object_values data of
        Inl e \<Rightarrow> (Inl e, st)
      | Inr vals \<Rightarrow>
          (case execute (ObjectInsert (issuer_id @ ''.'' @ object_suffix)
                            (issuer_id @ ''.'' @ class_suffix))
                  (object_insert cl (issuer_id @ ''.'' @ object_suffix)
                     (issuer_id @ ''.'' @ class_suffix) vals) st of
             (Inr response, st') \<Rightarrow>
               (Inr (dict_set ''has_error'' (JBool False)
                      (dict_set ''response'' response
                        (dict_set ''message'' (JStr ''Object created successfully.'')
                          (dict_set ''status'' (JStr ''created'')
                            (response_details0 issuer_id object_suffix))))), st')
           | (Inl e, st') \<Rightarrow>
               (case e of
                  HttpError status_code error_details \<Rightarrow>
                    if status_code = 404 then
                      (Inr (dict_set ''has_error'' (JBool True)
                             (dict_set ''message''
                                (JStr (''Wallet Object Class '' @ issuer_id @ ''.'' @ class_suffix @
                                       '' not found.''))
                               (dict_set ''status'' (JStr ''class_not_found'')
                                 (response_details0 issuer_id object_suffix)))), st')
                    else (Inr (response_details0 issuer_id object_suffix), st')
                | _ \<Rightarrow> (Inl e, st'))))"

definition ticket_create_object :: "'w wallet_client \<Rightarrow> string \<Rightarrow> string \<Rightarrow> string \<Rightarrow> dict \<Rightarrow>
    'w state \<Rightarrow> (exn + dict) \<times> 'w state" where
  "ticket_create_object cl issuer_id class_suffix object_suffix data st =
     (case execute (ObjectGet (issuer_id @ ''.'' @ object_suffix))
             (object_get cl (issuer_id @ ''.'' @ object_suffix)) st of
        (Inr found, st') \<Rightarrow>
          (Inr (dict_set ''has_error'' (JBool True)
                 (dict_set ''message''
                    (JStr (''Object '' @ issuer_id @ ''.'' @ object_suffix @ '' already exists!''))
                   (dict_set ''status'' (JStr ''exists'')
                     (response_details0 issuer_id object_suffix)))), st')
      | (Inl e, st') \<Rightarrow>
          (case e of
             HttpError status_code error_details \<Rightarrow>
               if status_code = 400 then
                 (Inr [(''status'', JStr ''invalid_request''),
                       (''message'', JStr ''Invalid resource ID.''),
                       (''error'', error_details),
                       (''has_error'', JBool True)], st')
               else if status_code \<noteq> 404 then
                 (Inr (dict_set ''has_error'' (JBool True)
                        (dict_set ''message''
                           (JStr ''An error occurred while checking the object existence.'')
                          (dict_set ''status'' (JStr ''error'')
                            (dict_set ''error'' error_details
                              (response_details0 issuer_id object_suffix))))), st')
               else insert_object cl issuer_id class_suffix object_suffix data st'
           | _ \<Rightarrow> (Inl e, st')))"

definition ticket_create_jwt_existing_objects :: "'w wallet_client \<Rightarrow> string \<Rightarrow> string \<Rightarrow>
    string \<Rightarrow> 'w state \<Rightarrow> (exn + dict) \<times> 'w state" where
  "ticket_create_jwt_existing_objects cl issuer_id object_suffix class_suffix st =
     (case execute (JwtSign (issuer_id @ ''.'' @ object_suffix) (issuer_id @ ''.'' @ class_suffix))
             (jwt_sign cl (issuer_id @ ''.'' @ object_suffix) (issuer_id @ ''.'' @ class_suffix)) st of
        (Inl e, st') \<Rightarrow> (Inl e, st')
      | (Inr token, st') \<Rightarrow>
          (Inr [(''status'', JStr ''success''),
                (''message'', JStr ''JWT successfully generated.''),
                (''wallet_link'', JStr (''https://pay.google.com/gp/v/save/'' @ token))], st'))"

section \<open>The endpoint \<open>POST /create-ticket/\<close>\<close>

text \<open>
  A request carries its query arguments and the outcome of \<open>request.get_json()\<close>, which
  raises when the body is missing or cannot be decoded. A response is a status code
  with a JSON body; an exception that leaves the view is \<open>Unhandled\<close>.
\<close>

record request =
  args :: "string \<Rightarrow> string option"
  get_json :: "exn + json"

datatype response = Response nat json | Unhandled exn

text \<open>\<open>not x\<close> for a query argument: it is missing or the empty string.\<close>

fun py_not :: "string option \<Rightarrow> bool" where
  "py_not None = True"
| "py_not (Some s) = (s = [])"

text \<open>The string of a query argument; it is read only after the checks found it present.\<close>

fun arg_value :: "string option \<Rightarrow> string" where
  "arg_value None = []"
| "arg_value (Some s) = s"

definition missing_params :: "request \<Rightarrow> string list" where
  "missing_params req =
     (if py_not (args req ''issuer_id'') then [''issuer_id''] else []) @
     (if py_not (args req ''class_suffix'') then [''class_suffix''] else []) @
     (if py_not (args req ''object_suffix'') then [''object_suffix''] else [])"

text \<open>
  The first \<open>try\<close> of the view: normalise the decoded body, and on any exception
  normalise the empty dict instead.
\<close>

definition payload_fields :: "exn + json \<Rightarrow> exn + dict" where
  "payload_fields body =
     (case body of
        Inl e \<Rightarrow> handle_options (JObj [])
      | Inr decoded \<Rightarrow>
          (case handle_options decoded of
             Inl e \<Rightarrow> handle_options (JObj [])
           | Inr data \<Rightarrow> Inr data))"

definition server_error :: response where
  "server_error =
     Response 500 (JObj [(''error'', JStr ''An error occurred while creating the class.'')])"

text \<open>
  The second \<open>try\<close> of the view: the three collaborator calls in a row, then the test
  of \<open>create_object["has_error"]\<close>. Any exception gives the fixed 500 response.
\<close>

definition issue_ticket :: "'w wallet_client \<Rightarrow> string \<Rightarrow> string \<Rightarrow> string \<Rightarrow> dict \<Rightarrow>
    'w state \<Rightarrow> response \<times> 'w state" where
  "issue_ticket cl issuer_id class_suffix object_suffix data st =
     (case ticket_create_class cl issuer_id class_suffix data st of
        (Inl e, st1) \<Rightarrow> (server_error, st1)
      | (Inr create_class, st1) \<Rightarrow>
          (case ticket_create_object cl issuer_id class_suffix object_suffix data st1 of
             (Inl e, st2) \<Rightarrow> (server_error, st2)
           | (Inr create_object, st2) \<Rightarrow>
               (case ticket_create_jwt_existing_objects cl issuer_id object_suffix class_suffix st2 of
                  (Inl e, st3) \<Rightarrow> (server_error, st3)
                | (Inr create_existing, st3) \<Rightarrow>
                    (case py_getitem (JObj create_object) ''has_error'' of
                       Inl e \<Rightarrow> (server_error, st3)
                     | Inr flag \<Rightarrow>
                         if truthy flag then (Response 200 (JObj create_object), st3)
                         else (Response 200 (JObj create_existing), st3)))))"

definition create_class :: "'w wallet_client \<Rightarrow> request \<Rightarrow> 'w state \<Rightarrow> response \<times> 'w state" where
  "create_class cl req st =
     (if missing_params req \<noteq> [] then
        (Response 400
           (JObj [(''error'', JStr ''Missing parameters''),
                  (''missing'', JArr (map JStr (missing_params req))),
                  (''message'', JStr (''Please provide the required parameters: '' @
                                     ''issuer_id, class_suffix, object_suffix.''))]), st)
      else
        (case payload_fields (get_json req) of
           Inl e \<Rightarrow> (Unhandled e, st)
         | Inr data \<Rightarrow>
             issue_ticket cl (arg_value (args req ''issuer_id''))
               (arg_value (args req ''class_suffix''))
               (arg_value (args req ''object_suffix'')) data st))"

text \<open>
  A backend for concrete runs: it answers each kind of operation with a fixed outcome and
  has no state of its own.
\<close>

definition fixed_backend ::
  "exn + json \<Rightarrow> exn + json \<Rightarrow> exn + json \<Rightarrow> exn + json \<Rightarrow> exn + string \<Rightarrow> unit wallet_client" where
  "fixed_backend cg ci og oi js =
     \<lparr>class_get = (\<lambda>rid w. (cg, w)),
      class_insert = (\<lambda>rid vals w. (ci, w)),
      object_get = (\<lambda>rid w. (og, w)),
      object_insert = (\<lambda>rid cid vals w. (oi, w)),
      jwt_sign = (\<lambda>oid cid w. (js, w))\<rparr>"

text \<open>A request with the identifiers \<open>I\<close>, \<open>C\<close> and \<open>O\<close> and the given body.\<close>

definition request_for :: "exn + json \<Rightarrow> request" where
  "request_for body =
     \<lparr>args = [''issuer_id'' \<mapsto> ''I'', ''class_suffix'' \<mapsto> ''C'', ''object_suffix'' \<mapsto> ''O''],
      get_json = body\<rparr>"

text \<open>
  A backend for concrete runs in which nothing exists yet and every insert succeeds: its
  world is the list of the field values it has been sent so far.
\<close>

definition recording_backend :: "json list wallet_client" where
  "recording_backend =
     \<lparr>class_get = (\<lambda>rid w. (Inl (HttpError 404 JNull), w)),
      class_insert = (\<lambda>rid vals w. (Inr JNull, w @ vals)),
      object_get = (\<lambda>rid w. (Inl (HttpError 404 JNull), w)),
      object_insert = (\<lambda>rid cid vals w. (Inr JNull, w @ vals)),
      jwt_sign = (\<lambda>oid cid w. (Inr ''tok'', w))\<rparr>"

section \<open>Dictionaries\<close>

lemma map_of_dict_set: "map_of (dict_set k v m) = (map_of m)(k \<mapsto> v)"
  by (induction m) auto

lemma keys_dict_set: "k \<in> fst ` set m \<Longrightarrow> map fst (dict_set k v m) = map fst m"
  by (induction m) force+

lemma map_of_dict_merge:
  "map_of (dict_merge d v) k = (case map_of (rev v) k of Some x \<Rightarrow> Some x | None \<Rightarrow> map_of d k)"
  by (induction d v rule: dict_merge.induct)
     (auto simp: map_of_dict_set map_add_def split: option.splits)

lemma map_of_rev_distinct: "distinct (map fst v) \<Longrightarrow> map_of (rev v) = map_of v"
proof (induction v)
  case Nil
  then show ?case by simp
next
  case (Cons p v)
  obtain k x where p: "p = (k, x)" by (cases p)
  from Cons.prems have nk: "map_of v k = None" and dv: "distinct (map fst v)"
    by (auto simp: p map_of_eq_None_iff)
  show ?case
    using Cons.IH [OF dv] nk
    by (auto simp: p fun_eq_iff map_add_def split: option.splits)
qed

lemma lookup_dict_merge:
  "distinct (map fst v) \<Longrightarrow>
   map_of (dict_merge d v) k = (case map_of v k of Some x \<Rightarrow> Some x | None \<Rightarrow> map_of d k)"
  by (simp add: map_of_dict_merge map_of_rev_distinct)

lemma map_of_reset_empty:
  "distinct (map fst ds) \<Longrightarrow>
   map_of (reset_empty ds v mg) k =
     (if k \<in> fst ` set ds \<and> map_of v k = Some (JStr []) then map_of ds k else map_of mg k)"
proof (induction ds arbitrary: mg)
  case Nil
  then show ?case by simp
next
  case (Cons p ds)
  obtain sk dv where p: "p = (sk, dv)" by (cases p)
  from Cons.prems have d: "distinct (map fst ds)" and nin: "sk \<notin> fst ` set ds"
    by (auto simp: p)
  show ?case
    using nin by (auto simp: p Cons.IH [OF d] map_of_dict_set map_of_eq_None_iff)
qed

section \<open>The loops of \<open>handle_options\<close>\<close>

lemma keys_dict_set_pair: "(k, x) \<in> set m \<Longrightarrow> map fst (dict_set k v m) = map fst m"
  by (rule keys_dict_set) force

lemma store_value_keys:
  "store_value key dv val res = Inr r \<Longrightarrow> key \<in> fst ` set res \<Longrightarrow> map fst r = map fst res"
  by (cases val) (auto intro: keys_dict_set_pair split: sum.splits if_splits)

lemma store_value_other:
  "store_value key dv val res = Inr r \<Longrightarrow> k \<noteq> key \<Longrightarrow> map_of r k = map_of res k"
  by (cases val) (auto simp: map_of_dict_set split: sum.splits if_splits)

lemma handle_field_keys:
  "handle_field key dv data res = Inr r \<Longrightarrow> key \<in> fst ` set res \<Longrightarrow> map fst r = map fst res"
  by (auto simp: handle_field_def store_value_keys split: sum.splits bool.splits)

lemma handle_field_other:
  "handle_field key dv data res = Inr r \<Longrightarrow> k \<noteq> key \<Longrightarrow> map_of r k = map_of res k"
  by (auto simp: handle_field_def store_value_other split: sum.splits bool.splits)

lemma handle_loop_keys:
  "handle_loop ds data res = Inr r \<Longrightarrow> fst ` set ds \<subseteq> fst ` set res \<Longrightarrow> map fst r = map fst res"
proof (induction ds arbitrary: res)
  case Nil
  then show ?case by simp
next
  case (Cons p ds)
  obtain key dv where p: "p = (key, dv)" by (cases p)
  from Cons.prems(1) obtain r1 where
    f: "handle_field key dv data res = Inr r1" and l: "handle_loop ds data r1 = Inr r"
    by (auto simp: p split: sum.splits)
  from Cons.prems(2) have "key \<in> fst ` set res" by (simp add: p)
  with f have k1: "map fst r1 = map fst res" by (rule handle_field_keys)
  then have "fst ` set r1 = fst ` set res" by (metis set_map)
  with Cons.prems(2) have "fst ` set ds \<subseteq> fst ` set r1" by simp
  with l have "map fst r = map fst r1" by (rule Cons.IH)
  with k1 show ?case by simp
qed

lemma handle_loop_other:
  "handle_loop ds data res = Inr r \<Longrightarrow> k \<notin> fst ` set ds \<Longrightarrow> map_of r k = map_of res k"
proof (induction ds arbitrary: res)
  case Nil
  then show ?case by simp
next
  case (Cons p ds)
  obtain key dv where p: "p = (key, dv)" by (cases p)
  from Cons.prems(1) obtain r1 where
    f: "handle_field key dv data res = Inr r1" and l: "handle_loop ds data r1 = Inr r"
    by (auto simp: p split: sum.splits)
  from Cons.prems(2) have ne: "k \<noteq> key" and nin: "k \<notin> fst ` set ds" by (auto simp: p)
  from l nin have "map_of r k = map_of r1 k" by (rule Cons.IH)
  also from f ne have "\<dots> = map_of res k" by (rule handle_field_other)
  finally show ?case .
qed

lemma handle_loop_absent:
  "handle_loop ds (JObj m) res = Inr r \<Longrightarrow> map_of m k = None \<Longrightarrow> map_of r k = map_of res k"
proof (induction ds arbitrary: res)
  case Nil
  then show ?case by simp
next
  case (Cons p ds)
  obtain key dv where p: "p = (key, dv)" by (cases p)
  from Cons.prems(1) obtain r1 where
    f: "handle_field key dv (JObj m) res = Inr r1" and l: "handle_loop ds (JObj m) r1 = Inr r"
    by (auto simp: p split: sum.splits)
  from l Cons.prems(2) have "map_of r k = map_of r1 k" by (rule Cons.IH)
  also have "\<dots> = map_of res k"
  proof (cases "k = key")
    case True
    with f Cons.prems(2) show ?thesis by (simp add: handle_field_def)
  next
    case False
    with f show ?thesis by (simp add: handle_field_other)
  qed
  finally show ?case .
qed

lemma handle_loop_present:
  "handle_loop ds (JObj m) res = Inr r \<Longrightarrow> distinct (map fst ds) \<Longrightarrow> (k, dv) \<in> set ds \<Longrightarrow>
   map_of m k = Some val \<Longrightarrow>
   \<exists>r0 r1. store_value k dv val r0 = Inr r1 \<and> map_of r k = map_of r1 k"
proof (induction ds arbitrary: res)
  case Nil
  then show ?case by simp
next
  case (Cons p ds)
  obtain key dv' where p: "p = (key, dv')" by (cases p)
  from Cons.prems(1) obtain r1 where
    f: "handle_field key dv' (JObj m) res = Inr r1" and l: "handle_loop ds (JObj m) r1 = Inr r"
    by (auto simp: p split: sum.splits)
  from Cons.prems(2) have d: "distinct (map fst ds)" and nin: "key \<notin> fst ` set ds"
    by (auto simp: p)
  show ?case
  proof (cases "(k, dv) \<in> set ds")
    case True
    from Cons.IH [OF l d True Cons.prems(4)] show ?thesis .
  next
    case False
    with Cons.prems(3) have e: "key = k" "dv' = dv" by (auto simp: p)
    from f have s: "store_value k dv val res = Inr r1"
      by (simp add: handle_field_def e Cons.prems(4))
    from l nin have "map_of r k = map_of r1 k" unfolding e by (rule handle_loop_other)
    with s show ?thesis by blast
  qed
qed

lemma handle_loop_cong:
  "\<forall>k \<in> fst ` set ds. map_of m k = map_of m' k \<Longrightarrow>
   handle_loop ds (JObj m) res = handle_loop ds (JObj m') res"
proof (induction ds arbitrary: res)
  case Nil
  then show ?case by simp
next
  case (Cons p ds)
  obtain key dv where p: "p = (key, dv)" by (cases p)
  from Cons.prems have h: "map_of m key = map_of m' key"
    and t: "\<forall>k \<in> fst ` set ds. map_of m k = map_of m' k" by (auto simp: p)
  have "handle_field key dv (JObj m) res = handle_field key dv (JObj m') res"
    by (simp add: handle_field_def h split: bool.splits)
  then show ?case by (simp add: p Cons.IH [OF t] split: sum.splits)
qed

lemma handle_loop_returns:
  "\<forall>(k, dv) \<in> set ds. \<forall>v. map_of m k = Some (JObj v) \<longrightarrow> (\<exists>d. dv = JObj d) \<Longrightarrow>
   \<exists>r. handle_loop ds (JObj m) res = Inr r"
proof (induction ds arbitrary: res)
  case Nil
  then show ?case by simp
next
  case (Cons p ds)
  obtain key dv where p: "p = (key, dv)" by (cases p)
  from Cons.prems have h: "\<forall>v. map_of m key = Some (JObj v) \<longrightarrow> (\<exists>d. dv = JObj d)"
    and t: "\<forall>(k, dv) \<in> set ds. \<forall>v. map_of m k = Some (JObj v) \<longrightarrow> (\<exists>d. dv = JObj d)"
    by (auto simp: p)
  have "\<exists>r1. handle_field key dv (JObj m) res = Inr r1"
  proof (cases "map_of m key")
    case None
    then show ?thesis by (simp add: handle_field_def)
  next
    case (Some val)
    with h show ?thesis by (cases val) (auto simp: handle_field_def)
  qed
  then obtain r1 where f: "handle_field key dv (JObj m) res = Inr r1" ..
  from Cons.IH [OF t] obtain r where "handle_loop ds (JObj m) r1 = Inr r" ..
  with f show ?case by (simp add: p)
qed

lemma handle_field_nondict:
  "\<forall>m. data \<noteq> JObj m \<Longrightarrow> handle_field key dv data res = Inr r \<Longrightarrow> r = res"
  by (cases data) (auto simp: handle_field_def split: bool.splits)

lemma handle_loop_nondict:
  "\<forall>m. data \<noteq> JObj m \<Longrightarrow> handle_loop ds data res = Inr r \<Longrightarrow> r = res"
proof (induction ds arbitrary: res)
  case Nil
  then show ?case by simp
next
  case (Cons p ds)
  obtain key dv where p: "p = (key, dv)" by (cases p)
  from Cons.prems(2) obtain r1 where
    f: "handle_field key dv data res = Inr r1" and l: "handle_loop ds data r1 = Inr r"
    by (auto simp: p split: sum.splits)
  from Cons.prems(1) f have "r1 = res" by (rule handle_field_nondict)
  with Cons.IH [OF Cons.prems(1)] l show ?case by simp
qed

section \<open>What \<open>handle_options\<close> stores for a field\<close>

lemma distinct_defaults: "distinct (map fst defaults)"
  by (simp add: defaults_def)

lemma distinct_seat_defaults: "distinct (map fst seat_defaults)"
  by (simp add: seat_defaults_def)

lemma seat_in_defaults: "(''seat'', JObj seat_defaults) \<in> set defaults"
  by (simp add: defaults_def)

lemma handle_options_keys: "handle_options data = Inr r \<Longrightarrow> map fst r = map fst defaults"
  unfolding handle_options_def by (erule handle_loop_keys) simp

lemma field_absent:
  "handle_options (JObj m) = Inr r \<Longrightarrow> map_of m k = None \<Longrightarrow> map_of r k = map_of defaults k"
  unfolding handle_options_def by (erule handle_loop_absent)

lemma field_str:
  assumes "handle_options (JObj m) = Inr r" and "(k, dv) \<in> set defaults"
    and "map_of m k = Some (JStr s)"
  shows "map_of r k = Some (if s = [] then dv else JStr s)"
proof -
  from assms obtain r0 r1 where
    "store_value k dv (JStr s) r0 = Inr r1" and "map_of r k = map_of r1 k"
    unfolding handle_options_def
    using handle_loop_present [OF _ distinct_defaults] by blast
  then show ?thesis by (auto simp: map_of_dict_set)
qed

lemma field_seat:
  assumes "handle_options (JObj m) = Inr r" and "map_of m ''seat'' = Some (JObj v)"
  shows "map_of r ''seat'' = Some (JObj (reset_empty seat_defaults v (dict_merge seat_defaults v)))"
proof -
  from assms seat_in_defaults obtain r0 r1 where
    "store_value ''seat'' (JObj seat_defaults) (JObj v) r0 = Inr r1"
    and "map_of r ''seat'' = map_of r1 ''seat''"
    unfolding handle_options_def
    using handle_loop_present [OF _ distinct_defaults] by blast
  then show ?thesis by (auto simp: map_of_dict_set)
qed

lemma seat_lookup:
  assumes "distinct (map fst v)"
  shows "map_of (reset_empty seat_defaults v (dict_merge seat_defaults v)) sk =
     (case map_of v sk of
        None \<Rightarrow> map_of seat_defaults sk
      | Some x \<Rightarrow> if x = JStr [] \<and> sk \<in> fst ` set seat_defaults
                  then map_of seat_defaults sk else Some x)"
  by (simp add: map_of_reset_empty [OF distinct_seat_defaults] lookup_dict_merge [OF assms]
        split: option.splits)


lemma field_other:
  assumes "handle_options (JObj m) = Inr r" and "(k, dv) \<in> set defaults"
    and "map_of m k = Some x" and "\<forall>s. x \<noteq> JStr s" and "\<forall>v. x \<noteq> JObj v"
  shows "map_of r k = Some x"
proof -
  from assms(1-3) obtain r0 r1 where
    "store_value k dv x r0 = Inr r1" and "map_of r k = map_of r1 k"
    unfolding handle_options_def
    using handle_loop_present [OF _ distinct_defaults] by blast
  with assms(4,5) show ?thesis by (cases x) (auto simp: map_of_dict_set)
qed

lemmas run_handle_options = handle_options_def defaults_def seat_defaults_def handle_field_def

lemma defaults_truthy: "(k, dv) \<in> set defaults \<Longrightarrow> truthy dv"
  by (auto simp: defaults_def seat_defaults_def)

lemma map_of_defaults: "(k, dv) \<in> set defaults \<Longrightarrow> map_of defaults k = Some dv"
  using distinct_defaults by simp

text \<open>
  \<open>handle_options\<close> returns on an input mapping exactly when no field with a string
  default is given a mapping.
\<close>

lemma handle_options_dict_needs_dict_default:
  assumes "handle_options (JObj m) = Inr r" and "(k, dv) \<in> set defaults"
    and "map_of m k = Some (JObj v)"
  shows "\<exists>d. dv = JObj d"
proof -
  from assms obtain r0 r1 where "store_value k dv (JObj v) r0 = Inr r1"
    unfolding handle_options_def
    using handle_loop_present [OF _ distinct_defaults] by blast
  then show ?thesis by (cases dv) simp_all
qed

lemma handle_options_returns_iff:
  "(\<exists>r. handle_options (JObj m) = Inr r) \<longleftrightarrow>
   (\<forall>(k, dv) \<in> set defaults. \<forall>v. map_of m k = Some (JObj v) \<longrightarrow> (\<exists>d. dv = JObj d))"
proof
  assume "\<exists>r. handle_options (JObj m) = Inr r"
  then obtain r where "handle_options (JObj m) = Inr r" ..
  then show "\<forall>(k, dv) \<in> set defaults. \<forall>v. map_of m k = Some (JObj v) \<longrightarrow> (\<exists>d. dv = JObj d)"
    using handle_options_dict_needs_dict_default by blast
next
  assume "\<forall>(k, dv) \<in> set defaults. \<forall>v. map_of m k = Some (JObj v) \<longrightarrow> (\<exists>d. dv = JObj d)"
  then show "\<exists>r. handle_options (JObj m) = Inr r"
    unfolding handle_options_def by (rule handle_loop_returns)
qed

section \<open>Properties of the field normaliser\<close>

text \<open>
  C5. Whenever \<open>handle_options\<close> returns, for any decoded payload, the returned dict
  has every key of the default record: the result starts as a copy of the defaults and
  the loop only stores under keys of the defaults.
\<close>

theorem handle_options_keeps_default_keys:
  "handle_options data = Inr r \<Longrightarrow> k \<in> set (map fst defaults) \<Longrightarrow> map_of r k \<noteq> None"
proof -
  assume h: "handle_options data = Inr r" and k: "k \<in> set (map fst defaults)"
  from h have "map fst r = map fst defaults" by (rule handle_options_keys)
  with k have "k \<in> fst ` set r" by (metis set_map)
  then show ?thesis by (simp add: map_of_eq_None_iff)
qed

theorem handle_options_keeps_default_keys_witness:
  "handle_options (JObj [(''event_name'', JStr ''Launch'')]) =
     Inr (dict_set ''event_name'' (JStr ''Launch'') defaults) \<and>
   ''seat'' \<in> set (map fst defaults) \<and>
   map_of (dict_set ''event_name'' (JStr ''Launch'') defaults) ''seat'' \<noteq> None"
proof -
  have run: "handle_options (JObj [(''event_name'', JStr ''Launch'')]) =
     Inr (dict_set ''event_name'' (JStr ''Launch'') defaults)"
    by (simp add: run_handle_options)
  have k: "''seat'' \<in> set (map fst defaults)"
    by (simp add: defaults_def)
  from handle_options_keeps_default_keys [OF run k] run k show ?thesis by simp
qed

text \<open>
  C4. Whenever \<open>handle_options\<close> returns on an input mapping: a default field supplied
  as the empty string holds its default value in the output and a default field supplied
  as a non-empty string holds that exact string; when the seat is supplied as a mapping,
  the same holds for each of its sub-fields \<open>row\<close> and \<open>seat_no\<close> on its own.
\<close>

theorem empty_string_yields_default:
  assumes "handle_options (JObj m) = Inr r"
  shows "((k, dv) \<in> set defaults \<and> map_of m k = Some (JStr s) \<longrightarrow>
            map_of r k = Some (if s = [] then dv else JStr s)) \<and>
         (map_of m ''seat'' = Some (JObj v) \<and> distinct (map fst v) \<and>
            (sk, sdv) \<in> set seat_defaults \<and> map_of v sk = Some (JStr t) \<longrightarrow>
            (\<exists>sr. map_of r ''seat'' = Some (JObj sr) \<and>
                  map_of sr sk = Some (if t = [] then sdv else JStr t)))"
proof (intro conjI impI)
  assume "(k, dv) \<in> set defaults \<and> map_of m k = Some (JStr s)"
  with assms show "map_of r k = Some (if s = [] then dv else JStr s)"
    by (simp add: field_str)
next
  assume a: "map_of m ''seat'' = Some (JObj v) \<and> distinct (map fst v) \<and>
            (sk, sdv) \<in> set seat_defaults \<and> map_of v sk = Some (JStr t)"
  let ?sr = "reset_empty seat_defaults v (dict_merge seat_defaults v)"
  from assms a have 1: "map_of r ''seat'' = Some (JObj ?sr)" by (simp add: field_seat)
  from a have d: "map_of seat_defaults sk = Some sdv"
    using distinct_seat_defaults by simp
  from a have "sk \<in> fst ` set seat_defaults" by force
  with a d have "map_of ?sr sk = Some (if t = [] then sdv else JStr t)"
    by (simp add: seat_lookup)
  with 1 show "\<exists>sr. map_of r ''seat'' = Some (JObj sr) \<and>
                  map_of sr sk = Some (if t = [] then sdv else JStr t)" by blast
qed

theorem empty_string_yields_default_witness:
  "handle_options (JObj [(''event_name'', JStr []), (''banner'', JStr ''b.png''),
                         (''seat'', JObj [(''row'', JStr []), (''seat_no'', JStr ''12'')])]) =
     Inr (dict_set ''seat'' (JObj [(''row'', JStr ''0''), (''seat_no'', JStr ''12'')])
           (dict_set ''banner'' (JStr ''b.png'') defaults)) \<and>
   map_of (dict_set ''seat'' (JObj [(''row'', JStr ''0''), (''seat_no'', JStr ''12'')])
           (dict_set ''banner'' (JStr ''b.png'') defaults)) ''event_name'' =
     Some (JStr ''Event Name'') \<and>
   map_of (dict_set ''seat'' (JObj [(''row'', JStr ''0''), (''seat_no'', JStr ''12'')])
           (dict_set ''banner'' (JStr ''b.png'') defaults)) ''banner'' = Some (JStr ''b.png'') \<and>
   (\<exists>sr. map_of (dict_set ''seat'' (JObj [(''row'', JStr ''0''), (''seat_no'', JStr ''12'')])
           (dict_set ''banner'' (JStr ''b.png'') defaults)) ''seat'' = Some (JObj sr) \<and>
         map_of sr ''row'' = Some (JStr ''0'')) \<and>
   (\<exists>sr. map_of (dict_set ''seat'' (JObj [(''row'', JStr ''0''), (''seat_no'', JStr ''12'')])
           (dict_set ''banner'' (JStr ''b.png'') defaults)) ''seat'' = Some (JObj sr) \<and>
         map_of sr ''seat_no'' = Some (JStr ''12''))"
proof -
  let ?v = "[(''row'', JStr []), (''seat_no'', JStr ''12'')]"
  let ?m = "[(''event_name'', JStr []), (''banner'', JStr ''b.png''), (''seat'', JObj ?v)]"
  let ?r = "dict_set ''seat'' (JObj [(''row'', JStr ''0''), (''seat_no'', JStr ''12'')])
           (dict_set ''banner'' (JStr ''b.png'') defaults)"
  have run: "handle_options (JObj ?m) = Inr ?r"
    by (simp add: run_handle_options)
  have top: "(''event_name'', JStr ''Event Name'') \<in> set defaults"
    "map_of ?m ''event_name'' = Some (JStr [])"
    "(''banner'', JStr ''https://farm4.staticflickr.com/3723/11177041115_6e6a3b6f49_o.jpg'')
       \<in> set defaults"
    "map_of ?m ''banner'' = Some (JStr ''b.png'')"
    by (simp_all add: defaults_def)
  have seat: "map_of ?m ''seat'' = Some (JObj ?v)" "distinct (map fst ?v)"
    "(''row'', JStr ''0'') \<in> set seat_defaults" "map_of ?v ''row'' = Some (JStr [])"
    "(''seat_no'', JStr ''0'') \<in> set seat_defaults" "map_of ?v ''seat_no'' = Some (JStr ''12'')"
    by (simp_all add: seat_defaults_def)
  from empty_string_yields_default
         [OF run, of "''event_name''" "JStr ''Event Name''" "[]" ?v "''row''" "JStr ''0''" "[]"]
       empty_string_yields_default
         [OF run, of "''banner''"
            "JStr ''https://farm4.staticflickr.com/3723/11177041115_6e6a3b6f49_o.jpg''"
            "''b.png''" ?v "''seat_no''" "JStr ''0''" "''12''"]
       run top seat
  show ?thesis by simp
qed

text \<open>
  C6. The normaliser is to return for every input mapping, whatever the types of the
  supplied values. At the input \<open>{"event_name": {}}\<close> it does not: the branch for a
  mapping evaluates \<open>{**default_value, **value}\<close> with the string default of
  \<open>event_name\<close> and raises \<open>TypeError\<close>.
\<close>

theorem handle_options_raises_on_dict_for_string_field:
  "handle_options (JObj [(''event_name'', JObj [])]) = Inl TypeError"
  by (simp add: run_handle_options)

text \<open>
  For C3: an unknown sub-key of the seat mapping is copied into the output seat, so it
  does change the output.
\<close>

theorem seat_unknown_subkey_is_copied:
  "handle_options (JObj [(''seat'', JObj [(''vip'', JStr ''yes'')])]) =
     Inr (dict_set ''seat'' (JObj (seat_defaults @ [(''vip'', JStr ''yes'')])) defaults) \<and>
   handle_options (JObj [(''seat'', JObj [(''vip'', JStr ''yes'')])]) \<noteq>
     handle_options (JObj [(''seat'', JObj [])])"
  by (simp add: run_handle_options)

text \<open>
  C3, as the code has it. The output of \<open>handle_options\<close> on an input mapping depends
  only on the values under the default keys, and its keys are exactly the default keys:
  a top-level key outside the default set is never copied. The seat mapping is merged
  over the default seat, so a seat sub-key outside the default seat is copied as it is.
\<close>

theorem unknown_top_level_keys_dropped:
  "((\<forall>k \<in> fst ` set defaults. map_of m k = map_of m' k) \<longrightarrow>
      handle_options (JObj m) = handle_options (JObj m')) \<and>
   (handle_options (JObj m) = Inr r \<longrightarrow> map fst r = map fst defaults) \<and>
   (handle_options (JObj m) = Inr r \<and> map_of m ''seat'' = Some (JObj v) \<and>
      distinct (map fst v) \<and> map_of v sk = Some x \<and> sk \<notin> fst ` set seat_defaults \<longrightarrow>
      (\<exists>sr. map_of r ''seat'' = Some (JObj sr) \<and> map_of sr sk = Some x))"
proof (intro conjI impI)
  assume "\<forall>k \<in> fst ` set defaults. map_of m k = map_of m' k"
  then show "handle_options (JObj m) = handle_options (JObj m')"
    unfolding handle_options_def by (rule handle_loop_cong)
next
  assume "handle_options (JObj m) = Inr r"
  then show "map fst r = map fst defaults" by (rule handle_options_keys)
next
  assume a: "handle_options (JObj m) = Inr r \<and> map_of m ''seat'' = Some (JObj v) \<and>
      distinct (map fst v) \<and> map_of v sk = Some x \<and> sk \<notin> fst ` set seat_defaults"
  let ?sr = "reset_empty seat_defaults v (dict_merge seat_defaults v)"
  from a have "handle_options (JObj m) = Inr r" and "map_of m ''seat'' = Some (JObj v)"
    by simp_all
  then have "map_of r ''seat'' = Some (JObj ?sr)" by (rule field_seat)
  moreover from a have "map_of ?sr sk = Some x" by (simp add: seat_lookup)
  ultimately show "\<exists>sr. map_of r ''seat'' = Some (JObj sr) \<and> map_of sr sk = Some x" by blast
qed

theorem unknown_top_level_keys_dropped_witness:
  "handle_options (JObj [(''event_name'', JStr ''Launch''), (''colour'', JStr ''red''),
                         (''seat'', JObj [(''vip'', JStr ''yes'')])]) =
   handle_options (JObj [(''event_name'', JStr ''Launch''),
                         (''seat'', JObj [(''vip'', JStr ''yes'')])]) \<and>
   map fst (dict_set ''seat'' (JObj (seat_defaults @ [(''vip'', JStr ''yes'')]))
             (dict_set ''event_name'' (JStr ''Launch'') defaults)) = map fst defaults \<and>
   (\<exists>sr. map_of (dict_set ''seat'' (JObj (seat_defaults @ [(''vip'', JStr ''yes'')]))
             (dict_set ''event_name'' (JStr ''Launch'') defaults)) ''seat'' = Some (JObj sr) \<and>
         map_of sr ''vip'' = Some (JStr ''yes''))"
proof -
  let ?m = "[(''event_name'', JStr ''Launch''), (''colour'', JStr ''red''),
             (''seat'', JObj [(''vip'', JStr ''yes'')])]"
  let ?m' = "[(''event_name'', JStr ''Launch''), (''seat'', JObj [(''vip'', JStr ''yes'')])]"
  let ?r = "dict_set ''seat'' (JObj (seat_defaults @ [(''vip'', JStr ''yes'')]))
             (dict_set ''event_name'' (JStr ''Launch'') defaults)"
  have same: "\<forall>k \<in> fst ` set defaults. map_of ?m k = map_of ?m' k"
    by (simp add: defaults_def)
  have run: "handle_options (JObj ?m) = Inr ?r"
    by (simp add: run_handle_options)
  have seat: "map_of ?m ''seat'' = Some (JObj [(''vip'', JStr ''yes'')])"
    "distinct (map fst [(''vip'', JStr ''yes'')])"
    "map_of [(''vip'', JStr ''yes'')] ''vip'' = Some (JStr ''yes'')"
    "''vip'' \<notin> fst ` set seat_defaults"
    by (simp_all add: seat_defaults_def)
  from unknown_top_level_keys_dropped [of ?m ?m' ?r "[(''vip'', JStr ''yes'')]" "''vip''" "JStr ''yes''"] same run seat
  show ?thesis by blast
qed

text \<open>
  For C9: a list supplied for the seat is stored as it is, so the seat of the output is
  neither a mapping nor non-empty.
\<close>

theorem seat_list_stored_verbatim:
  "handle_options (JObj [(''seat'', JArr [])]) = Inr (dict_set ''seat'' (JArr []) defaults) \<and>
   map_of (dict_set ''seat'' (JArr []) defaults) ''seat'' = Some (JArr [])"
  by (simp add: run_handle_options)

text \<open>
  Present and non-empty: whenever \<open>handle_options\<close> returns on an input mapping, every
  default key is present, and what is absent or supplied as a string is non-empty in the
  output, also within a seat supplied as a mapping. Non-empty is Python's truth value of
  a \<open>str\<close> or \<open>dict\<close>.
\<close>

lemma non_empty_part:
  assumes "handle_options (JObj m) = Inr r"
  shows "(k \<in> fst ` set defaults \<longrightarrow> map_of r k \<noteq> None) \<and>
     (k \<in> fst ` set defaults \<and> (map_of m k = None \<or> map_of m k = Some (JStr s)) \<longrightarrow>
        (\<exists>x. map_of r k = Some x \<and> truthy x)) \<and>
     (map_of m ''seat'' = None \<or> map_of m ''seat'' = Some (JStr []) \<longrightarrow>
        map_of r ''seat'' = Some (JObj seat_defaults)) \<and>
     (map_of m ''seat'' = Some (JObj v) \<and> distinct (map fst v) \<and> sk \<in> fst ` set seat_defaults \<and>
        (map_of v sk = None \<or> map_of v sk = Some (JStr t)) \<longrightarrow>
        (\<exists>sr u. map_of r ''seat'' = Some (JObj sr) \<and> map_of sr sk = Some (JStr u) \<and> u \<noteq> []))"
proof (intro conjI impI)
  assume "k \<in> fst ` set defaults"
  moreover from assms have "map fst r = map fst defaults" by (rule handle_options_keys)
  ultimately have "k \<in> fst ` set r" by (metis set_map)
  then show "map_of r k \<noteq> None" by (simp add: map_of_eq_None_iff)
next
  assume a: "k \<in> fst ` set defaults \<and> (map_of m k = None \<or> map_of m k = Some (JStr s))"
  then obtain dv where dv: "(k, dv) \<in> set defaults" by force
  then have t: "truthy dv" and d: "map_of defaults k = Some dv"
    by (simp_all add: defaults_truthy map_of_defaults)
  from a consider "map_of m k = None" | "map_of m k = Some (JStr s)" by auto
  then show "\<exists>x. map_of r k = Some x \<and> truthy x"
  proof cases
    case 1
    with assms have "map_of r k = map_of defaults k" by (rule field_absent)
    with d t show ?thesis by simp
  next
    case 2
    with assms dv have "map_of r k = Some (if s = [] then dv else JStr s)" by (simp add: field_str)
    with t show ?thesis by simp
  qed
next
  assume "map_of m ''seat'' = None \<or> map_of m ''seat'' = Some (JStr [])"
  then consider "map_of m ''seat'' = None" | "map_of m ''seat'' = Some (JStr [])" by auto
  then show "map_of r ''seat'' = Some (JObj seat_defaults)"
  proof cases
    case 1
    with assms have "map_of r ''seat'' = map_of defaults ''seat''" by (rule field_absent)
    then show ?thesis by (simp add: map_of_defaults [OF seat_in_defaults])
  next
    case 2
    with assms seat_in_defaults show ?thesis by (simp add: field_str)
  qed
next
  assume a: "map_of m ''seat'' = Some (JObj v) \<and> distinct (map fst v) \<and>
        sk \<in> fst ` set seat_defaults \<and> (map_of v sk = None \<or> map_of v sk = Some (JStr t))"
  let ?sr = "reset_empty seat_defaults v (dict_merge seat_defaults v)"
  from assms a have 1: "map_of r ''seat'' = Some (JObj ?sr)" by (simp add: field_seat)
  from a have d: "map_of seat_defaults sk = Some (JStr ''0'')"
    by (auto simp: seat_defaults_def)
  from a consider "map_of v sk = None" | "map_of v sk = Some (JStr t)" by auto
  then have "\<exists>u. map_of ?sr sk = Some (JStr u) \<and> u \<noteq> []"
  proof cases
    case 1
    with a d show ?thesis by (simp add: seat_lookup)
  next
    case 2
    with a d show ?thesis by (simp add: seat_lookup)
  qed
  with 1 show "\<exists>sr u. map_of r ''seat'' = Some (JObj sr) \<and> map_of sr sk = Some (JStr u) \<and> u \<noteq> []"
    by blast
qed

text \<open>
  C9, as the code has it. Whenever \<open>handle_options\<close> returns on an input mapping:
  every default key is present; a field that is absent holds its default and a field
  supplied as a string holds that string, or its default when the string is empty, so
  both are non-empty; a value of any other type, except a mapping, is stored as it is; a
  seat that is absent or the empty string is the default seat mapping and a non-empty
  string supplied for the seat replaces the seat mapping; and when the seat is supplied
  as a mapping, each of \<open>row\<close> and \<open>seat_no\<close> that is absent from it or supplied as a
  string is a non-empty string in the output seat, while every sub-value other than the
  empty string is kept as supplied.
\<close>

theorem absent_or_string_fields_non_empty:
  assumes "handle_options (JObj m) = Inr r"
  shows "(k \<in> fst ` set defaults \<longrightarrow> map_of r k \<noteq> None) \<and>
     (k \<in> fst ` set defaults \<and> (map_of m k = None \<or> map_of m k = Some (JStr s)) \<longrightarrow>
        (\<exists>x. map_of r k = Some x \<and> truthy x)) \<and>
     (map_of m ''seat'' = None \<or> map_of m ''seat'' = Some (JStr []) \<longrightarrow>
        map_of r ''seat'' = Some (JObj seat_defaults)) \<and>
     (map_of m ''seat'' = Some (JObj v) \<and> distinct (map fst v) \<and> sk \<in> fst ` set seat_defaults \<and>
        (map_of v sk = None \<or> map_of v sk = Some (JStr t)) \<longrightarrow>
        (\<exists>sr u. map_of r ''seat'' = Some (JObj sr) \<and> map_of sr sk = Some (JStr u) \<and> u \<noteq> [])) \<and>
     ((k, dv) \<in> set defaults \<and> map_of m k = None \<longrightarrow> map_of r k = Some dv) \<and>
     ((k, dv) \<in> set defaults \<and> map_of m k = Some (JStr s) \<longrightarrow>
        map_of r k = Some (if s = [] then dv else JStr s)) \<and>
     ((k, dv) \<in> set defaults \<and> map_of m k = Some x \<and> (\<forall>s'. x \<noteq> JStr s') \<and> (\<forall>v'. x \<noteq> JObj v') \<longrightarrow>
        map_of r k = Some x) \<and>
     (map_of m ''seat'' = Some (JStr s) \<and> s \<noteq> [] \<longrightarrow> map_of r ''seat'' = Some (JStr s)) \<and>
     (map_of m ''seat'' = Some (JObj v) \<and> distinct (map fst v) \<and> map_of v sk = Some y \<and>
        y \<noteq> JStr [] \<longrightarrow>
        (\<exists>sr. map_of r ''seat'' = Some (JObj sr) \<and> map_of sr sk = Some y))"
proof -
  note old = non_empty_part [OF assms, of k s v sk t]
  have a: "(k, dv) \<in> set defaults \<and> map_of m k = None \<longrightarrow> map_of r k = Some dv"
    using field_absent [OF assms] map_of_defaults by auto
  have b: "(k, dv) \<in> set defaults \<and> map_of m k = Some (JStr s) \<longrightarrow>
        map_of r k = Some (if s = [] then dv else JStr s)"
    using field_str [OF assms] by blast
  have c: "(k, dv) \<in> set defaults \<and> map_of m k = Some x \<and> (\<forall>s'. x \<noteq> JStr s') \<and>
        (\<forall>v'. x \<noteq> JObj v') \<longrightarrow> map_of r k = Some x"
    using field_other [OF assms] by blast
  have d: "map_of m ''seat'' = Some (JStr s) \<and> s \<noteq> [] \<longrightarrow> map_of r ''seat'' = Some (JStr s)"
    using field_str [OF assms seat_in_defaults] by auto
  have e: "map_of m ''seat'' = Some (JObj v) \<and> distinct (map fst v) \<and> map_of v sk = Some y \<and>
        y \<noteq> JStr [] \<longrightarrow> (\<exists>sr. map_of r ''seat'' = Some (JObj sr) \<and> map_of sr sk = Some y)"
  proof
    assume h: "map_of m ''seat'' = Some (JObj v) \<and> distinct (map fst v) \<and> map_of v sk = Some y \<and>
        y \<noteq> JStr []"
    let ?sr = "reset_empty seat_defaults v (dict_merge seat_defaults v)"
    from h have "map_of m ''seat'' = Some (JObj v)" by simp
    with assms have "map_of r ''seat'' = Some (JObj ?sr)" by (rule field_seat)
    moreover from h have "map_of ?sr sk = Some y" by (simp add: seat_lookup)
    ultimately show "\<exists>sr. map_of r ''seat'' = Some (JObj sr) \<and> map_of sr sk = Some y" by blast
  qed
  note o1 = old [THEN conjunct1]
    and o2 = old [THEN conjunct2, THEN conjunct1]
    and o3 = old [THEN conjunct2, THEN conjunct2, THEN conjunct1]
    and o4 = old [THEN conjunct2, THEN conjunct2, THEN conjunct2]
  show ?thesis by (intro conjI) (rule o1 o2 o3 o4 a b c d e)+
qed

theorem absent_or_string_fields_non_empty_witness:
  "handle_options (JObj [(''event_name'', JStr []), (''gate'', JInt 7),
                         (''seat'', JObj [(''row'', JStr []), (''seat_no'', JInt 3)])]) =
     Inr (dict_set ''seat'' (JObj [(''row'', JStr ''0''), (''seat_no'', JInt 3)])
           (dict_set ''gate'' (JInt 7) defaults)) \<and>
   map_of (dict_set ''seat'' (JObj [(''row'', JStr ''0''), (''seat_no'', JInt 3)])
           (dict_set ''gate'' (JInt 7) defaults)) ''event_name'' = Some (JStr ''Event Name'') \<and>
   map_of (dict_set ''seat'' (JObj [(''row'', JStr ''0''), (''seat_no'', JInt 3)])
           (dict_set ''gate'' (JInt 7) defaults)) ''gate'' = Some (JInt 7) \<and>
   (\<exists>sr u. map_of (dict_set ''seat'' (JObj [(''row'', JStr ''0''), (''seat_no'', JInt 3)])
           (dict_set ''gate'' (JInt 7) defaults)) ''seat'' = Some (JObj sr) \<and>
          map_of sr ''row'' = Some (JStr u) \<and> u \<noteq> []) \<and>
   (\<exists>sr. map_of (dict_set ''seat'' (JObj [(''row'', JStr ''0''), (''seat_no'', JInt 3)])
           (dict_set ''gate'' (JInt 7) defaults)) ''seat'' = Some (JObj sr) \<and>
         map_of sr ''seat_no'' = Some (JInt 3)) \<and>
   handle_options (JObj [(''seat'', JStr ''A1'')]) = Inr (dict_set ''seat'' (JStr ''A1'') defaults) \<and>
   map_of (dict_set ''seat'' (JStr ''A1'') defaults) ''seat'' = Some (JStr ''A1'') \<and>
   handle_options (JObj []) = Inr defaults \<and>
   map_of defaults ''seat'' = Some (JObj seat_defaults) \<and>
   map_of defaults ''gate'' = Some (JStr ''0'')"
proof -
  let ?v = "[(''row'', JStr []), (''seat_no'', JInt 3)]"
  let ?m = "[(''event_name'', JStr []), (''gate'', JInt 7), (''seat'', JObj ?v)]"
  let ?r = "dict_set ''seat'' (JObj [(''row'', JStr ''0''), (''seat_no'', JInt 3)])
           (dict_set ''gate'' (JInt 7) defaults)"
  let ?m2 = "[(''seat'', JStr ''A1'')]"
  let ?r2 = "dict_set ''seat'' (JStr ''A1'') defaults"
  have run: "handle_options (JObj ?m) = Inr ?r"
    by (simp add: run_handle_options)
  have run2: "handle_options (JObj ?m2) = Inr ?r2"
    by (simp add: run_handle_options)
  have run0: "handle_options (JObj []) = Inr defaults"
    by (simp add: run_handle_options)
  have top: "''event_name'' \<in> fst ` set defaults"
    "(''event_name'', JStr ''Event Name'') \<in> set defaults"
    "map_of ?m ''event_name'' = Some (JStr [])"
    "(''gate'', JStr ''0'') \<in> set defaults"
    "map_of ?m ''gate'' = Some (JInt 7)"
    "\<forall>s'. JInt 7 \<noteq> JStr s'" "\<forall>v'. JInt 7 \<noteq> JObj v'"
    "map_of ?m2 ''seat'' = Some (JStr ''A1'')" "''A1'' \<noteq> []"
    "map_of ([] :: dict) ''seat'' = None" "map_of ([] :: dict) ''gate'' = None"
    by (simp_all add: defaults_def)
  have seat: "map_of ?m ''seat'' = Some (JObj ?v)" "distinct (map fst ?v)"
    "''row'' \<in> fst ` set seat_defaults" "map_of ?v ''row'' = Some (JStr [])"
    "map_of ?v ''seat_no'' = Some (JInt 3)" "JInt 3 \<noteq> JStr []"
    by (simp_all add: seat_defaults_def)
  from absent_or_string_fields_non_empty [OF run, where k = "''event_name''" and dv = "JStr ''Event Name''" and s = "[]"
             and v = ?v and sk = "''row''" and t = "[]"]
       absent_or_string_fields_non_empty [OF run, where k = "''gate''" and dv = "JStr ''0''" and x = "JInt 7"
             and v = ?v and sk = "''seat_no''" and y = "JInt 3"]
       absent_or_string_fields_non_empty [OF run2, where s = "''A1''"]
       absent_or_string_fields_non_empty [OF run0, where k = "''gate''" and dv = "JStr ''0''"]
       run run2 run0 top seat
  show ?thesis by simp
qed

section \<open>The collaborator and the endpoint\<close>

lemma execute_trace: "execute opn f st = (res, st') \<Longrightarrow> snd st' = snd st @ [opn]"
  by (auto simp: execute_def split: prod.splits)

lemma handle_options_empty: "handle_options (JObj []) = Inr defaults"
  by (simp add: handle_options_def defaults_def handle_field_def)

lemma handle_options_nondict:
  "\<forall>m. decoded \<noteq> JObj m \<Longrightarrow> handle_options decoded = Inr r \<Longrightarrow> r = defaults"
  unfolding handle_options_def by (rule handle_loop_nondict)

lemma payload_fields_returns: "\<exists>data. payload_fields body = Inr data"
  by (auto simp: payload_fields_def handle_options_empty split: sum.splits)

lemma payload_fields_fallback:
  "body = Inl e \<or> (\<exists>decoded e. body = Inr decoded \<and> handle_options decoded = Inl e) \<Longrightarrow>
   payload_fields body = Inr defaults"
  by (auto simp: payload_fields_def handle_options_empty)

lemma missing_params_present:
  assumes "args req ''issuer_id'' = Some i" "i \<noteq> []"
    and "args req ''class_suffix'' = Some c" "c \<noteq> []"
    and "args req ''object_suffix'' = Some ob" "ob \<noteq> []"
  shows "missing_params req = []"
  using assms by (simp add: missing_params_def)

lemma create_class_present:
  assumes "args req ''issuer_id'' = Some i" "i \<noteq> []"
    and "args req ''class_suffix'' = Some c" "c \<noteq> []"
    and "args req ''object_suffix'' = Some ob" "ob \<noteq> []"
    and "payload_fields (get_json req) = Inr data"
  shows "create_class cl req st = issue_ticket cl i c ob data st"
  using assms by (simp add: create_class_def missing_params_def)

lemma create_object_has_error:
  "ticket_create_object cl i c ob data st = (Inr co, st') \<Longrightarrow>
   \<exists>b. map_of co ''has_error'' = Some (JBool b)"
  by (auto simp: ticket_create_object_def insert_object_def response_details0_def
           split: prod.splits sum.splits exn.splits if_splits)

lemma create_object_exists_flag:
  "ticket_create_object cl i c ob data st = (Inr co, st') \<Longrightarrow>
   map_of co ''status'' = Some (JStr ''exists'') \<Longrightarrow>
   map_of co ''has_error'' = Some (JBool True)"
  by (auto simp: ticket_create_object_def insert_object_def response_details0_def
           split: prod.splits sum.splits exn.splits if_splits)

lemma create_jwt_trace:
  "ticket_create_jwt_existing_objects cl i ob c st = (res, st') \<Longrightarrow>
   snd st' = snd st @ [JwtSign (i @ ''.'' @ ob) (i @ ''.'' @ c)]"
  by (auto simp: ticket_create_jwt_existing_objects_def dest: execute_trace
           split: prod.splits sum.splits)

lemma insert_class_trace:
  "insert_class cl i c data st = (res, st') \<Longrightarrow> \<exists>ops. snd st' = snd st @ ops"
  by (auto simp: insert_class_def dest: execute_trace split: prod.splits sum.splits)

lemma create_class_trace:
  "ticket_create_class cl i c data st = (res, st') \<Longrightarrow>
   \<exists>ops. snd st' = snd st @ ClassGet (i @ ''.'' @ c) # ops"
  by (auto simp: ticket_create_class_def
           dest!: execute_trace insert_class_trace
           split: prod.splits sum.splits exn.splits if_splits)

lemma insert_object_trace:
  "insert_object cl i c ob data st = (res, st') \<Longrightarrow> \<exists>ops. snd st' = snd st @ ops"
  by (auto simp: insert_object_def dest: execute_trace
           split: prod.splits sum.splits exn.splits if_splits)

lemma create_object_trace:
  "ticket_create_object cl i c ob data st = (res, st') \<Longrightarrow> \<exists>ops. snd st' = snd st @ ops"
  by (auto simp: ticket_create_object_def
           dest!: execute_trace insert_object_trace
           split: prod.splits sum.splits exn.splits if_splits)

lemma create_object_first_op:
  "ticket_create_object cl i c ob data st = (res, st') \<Longrightarrow>
   \<exists>ops. snd st' = snd st @ ObjectGet (i @ ''.'' @ ob) # ops"
  by (auto simp: ticket_create_object_def
           dest!: execute_trace insert_object_trace
           split: prod.splits sum.splits exn.splits if_splits)

lemma issue_ticket_trace:
  assumes "issue_ticket cl i c ob data st = (resp, st')"
  shows "\<exists>ops. snd st' = snd st @ ClassGet (i @ ''.'' @ c) # ops"
proof -
  obtain r1 st1 where c1: "ticket_create_class cl i c data st = (r1, st1)"
    by (cases "ticket_create_class cl i c data st") auto
  obtain r2 st2 where c2: "ticket_create_object cl i c ob data st1 = (r2, st2)"
    by (cases "ticket_create_object cl i c ob data st1") auto
  obtain r3 st3 where c3: "ticket_create_jwt_existing_objects cl i ob c st2 = (r3, st3)"
    by (cases "ticket_create_jwt_existing_objects cl i ob c st2") auto
  from create_class_trace [OF c1] obtain ops1 where
    t1: "snd st1 = snd st @ ClassGet (i @ ''.'' @ c) # ops1" ..
  from create_object_trace [OF c2] obtain ops2 where t2: "snd st2 = snd st1 @ ops2" ..
  from create_jwt_trace [OF c3]
  have t3: "snd st3 = snd st2 @ [JwtSign (i @ ''.'' @ ob) (i @ ''.'' @ c)]" .
  from assms c1 c2 c3 have "st' = st1 \<or> st' = st2 \<or> st' = st3"
    by (auto simp: issue_ticket_def split: sum.splits if_splits)
  with t1 t2 t3 show ?thesis by auto
qed

lemmas run_endpoint =
  create_class_def missing_params_def payload_fields_def issue_ticket_def server_error_def
  ticket_create_class_def insert_class_def new_class_values_def
  ticket_create_object_def insert_object_def new_object_values_def response_details0_def
  py_getitem2_def ticket_create_jwt_existing_objects_def execute_def fixed_backend_def
  request_for_def handle_options_def defaults_def seat_defaults_def handle_field_def

section \<open>Properties of the endpoint\<close>

text \<open>
  C7. When any of \<open>issuer_id\<close>, \<open>class_suffix\<close>, \<open>object_suffix\<close> is missing or
  empty, the response is HTTP 400, its \<open>missing\<close> list holds exactly the missing
  identifiers in that order, the message is fixed, and the world and the record of
  outbound operations are unchanged.
\<close>

theorem missing_identifiers_rejected:
  assumes "py_not (args req ''issuer_id'') \<or> py_not (args req ''class_suffix'') \<or>
           py_not (args req ''object_suffix'')"
  shows "create_class cl req st =
     (Response 400
        (JObj [(''error'', JStr ''Missing parameters''),
               (''missing'', JArr (map JStr (filter (\<lambda>k. py_not (args req k))
                                [''issuer_id'', ''class_suffix'', ''object_suffix'']))),
               (''message'', JStr (''Please provide the required parameters: '' @
                                  ''issuer_id, class_suffix, object_suffix.''))]), st)"
  using assms by (auto simp: create_class_def missing_params_def)

theorem missing_identifiers_rejected_witness:
  "py_not (args \<lparr>args = [''issuer_id'' \<mapsto> ''I'', ''class_suffix'' \<mapsto> ''C''],
                 get_json = Inr (JObj [])\<rparr> ''object_suffix'') \<and>
   create_class (fixed_backend (Inr JNull) (Inr JNull) (Inr JNull) (Inr JNull) (Inr ''tok''))
      \<lparr>args = [''issuer_id'' \<mapsto> ''I'', ''class_suffix'' \<mapsto> ''C''], get_json = Inr (JObj [])\<rparr>
      ((), []) =
     (Response 400
        (JObj [(''error'', JStr ''Missing parameters''),
               (''missing'', JArr [JStr ''object_suffix'']),
               (''message'', JStr ''Please provide the required parameters: issuer_id, class_suffix, object_suffix.'')]),
      ((), []))"
proof -
  let ?R = "\<lparr>args = [''issuer_id'' \<mapsto> ''I'', ''class_suffix'' \<mapsto> ''C''],
             get_json = Inr (JObj [])\<rparr>"
  have m: "py_not (args ?R ''object_suffix'')" by simp
  then have h: "py_not (args ?R ''issuer_id'') \<or> py_not (args ?R ''class_suffix'') \<or>
           py_not (args ?R ''object_suffix'')" by blast
  from missing_identifiers_rejected [OF h, of "fixed_backend (Inr JNull) (Inr JNull) (Inr JNull) (Inr JNull) (Inr ''tok'')"
             "((), [])"] m
  show ?thesis by simp
qed

text \<open>
  C8. With all three identifiers present and a body that is absent, undecodable, decoded
  to something other than a mapping, or the empty mapping, the fields are the full
  defaults and the endpoint goes on to issue the ticket with them; class creation is
  requested first.
\<close>

theorem undecodable_body_uses_defaults:
  assumes "args req ''issuer_id'' = Some i" "i \<noteq> []"
    and "args req ''class_suffix'' = Some c" "c \<noteq> []"
    and "args req ''object_suffix'' = Some ob" "ob \<noteq> []"
    and "\<forall>m. get_json req = Inr (JObj m) \<longrightarrow> m = []"
  shows "payload_fields (get_json req) = Inr defaults \<and>
         create_class cl req st = issue_ticket cl i c ob defaults st \<and>
         (\<exists>ops. snd (snd (create_class cl req st)) = snd st @ ClassGet (i @ ''.'' @ c) # ops)"
proof -
  have p: "payload_fields (get_json req) = Inr defaults"
  proof (cases "get_json req")
    case (Inl e)
    then show ?thesis by (simp add: payload_fields_fallback)
  next
    case (Inr decoded)
    show ?thesis
    proof (cases "\<exists>m. decoded = JObj m")
      case True
      with Inr assms(7) have "decoded = JObj []" by auto
      with Inr show ?thesis by (simp add: payload_fields_def handle_options_empty)
    next
      case False
      then have nd: "\<forall>m. decoded \<noteq> JObj m" by simp
      show ?thesis
      proof (cases "handle_options decoded")
        case (Inl e)
        with Inr show ?thesis by (simp add: payload_fields_def handle_options_empty)
      next
        case (Inr r)
        with nd have "r = defaults" by (simp add: handle_options_nondict)
        with Inr \<open>get_json req = Inr decoded\<close> show ?thesis by (simp add: payload_fields_def)
      qed
    qed
  qed
  from assms(1-6) p have e: "create_class cl req st = issue_ticket cl i c ob defaults st"
    by (rule create_class_present)
  obtain resp st' where r: "issue_ticket cl i c ob defaults st = (resp, st')"
    by (cases "issue_ticket cl i c ob defaults st") auto
  from issue_ticket_trace [OF r] e r p show ?thesis by simp
qed

theorem undecodable_body_uses_defaults_witness:
  "payload_fields (Inl (HTTPException 400)) = Inr defaults \<and>
   payload_fields (Inr (JArr [JStr ''seat''])) = Inr defaults \<and>
   create_class
      (fixed_backend (Inl (HttpError 404 JNull)) (Inr (JStr ''class'')) (Inl (HttpError 404 JNull))
         (Inr (JStr ''object'')) (Inr ''tok''))
      (request_for (Inl (HTTPException 400))) ((), []) =
     (Response 200
        (JObj [(''status'', JStr ''success''), (''message'', JStr ''JWT successfully generated.''),
               (''wallet_link'', JStr ''https://pay.google.com/gp/v/save/tok'')]),
      ((), [ClassGet ''I.C'', ClassInsert ''I.C'', ObjectGet ''I.O'', ObjectInsert ''I.O'' ''I.C'',
            JwtSign ''I.O'' ''I.C'']))"
proof -
  let ?B = "fixed_backend (Inl (HttpError 404 JNull)) (Inr (JStr ''class'')) (Inl (HttpError 404 JNull))
         (Inr (JStr ''object'')) (Inr ''tok'')"
  let ?R = "request_for (Inl (HTTPException 400))"
  let ?R' = "request_for (Inr (JArr [JStr ''seat'']))"
  have a: "args ?R ''issuer_id'' = Some ''I''" "''I'' \<noteq> []"
    "args ?R ''class_suffix'' = Some ''C''" "''C'' \<noteq> []"
    "args ?R ''object_suffix'' = Some ''O''" "''O'' \<noteq> []"
    by (simp_all add: request_for_def)
  have a': "args ?R' ''issuer_id'' = Some ''I''" "''I'' \<noteq> []"
    "args ?R' ''class_suffix'' = Some ''C''" "''C'' \<noteq> []"
    "args ?R' ''object_suffix'' = Some ''O''" "''O'' \<noteq> []"
    by (simp_all add: request_for_def)
  have b: "\<forall>m. get_json ?R = Inr (JObj m) \<longrightarrow> m = []"
    by (simp add: request_for_def)
  have b': "\<forall>m. get_json ?R' = Inr (JObj m) \<longrightarrow> m = []"
    by (simp add: request_for_def)
  have run: "issue_ticket ?B ''I'' ''C'' ''O'' defaults ((), []) =
     (Response 200
        (JObj [(''status'', JStr ''success''), (''message'', JStr ''JWT successfully generated.''),
               (''wallet_link'', JStr ''https://pay.google.com/gp/v/save/tok'')]),
      ((), [ClassGet ''I.C'', ClassInsert ''I.C'', ObjectGet ''I.O'', ObjectInsert ''I.O'' ''I.C'',
            JwtSign ''I.O'' ''I.C'']))"
    by (simp add: run_endpoint)
  have g: "get_json ?R = Inl (HTTPException 400)" "get_json ?R' = Inr (JArr [JStr ''seat''])"
    by (simp_all add: request_for_def)
  from undecodable_body_uses_defaults [OF a b, of ?B "((), [])"] undecodable_body_uses_defaults [OF a' b', of ?B "((), [])"] run g
  show ?thesis by simp
qed

text \<open>
  C10. With all three identifiers present and a decoded body on which \<open>handle_options\<close>
  raises, the endpoint catches the exception and normalises the empty dict: the fields
  are the full defaults, so every supplied value is dropped and the run is the run of the
  same request with an empty body; the ticket is issued with the defaults, class creation
  being requested first.
\<close>

theorem raising_payload_is_discarded:
  assumes "args req ''issuer_id'' = Some i" "i \<noteq> []"
    and "args req ''class_suffix'' = Some c" "c \<noteq> []"
    and "args req ''object_suffix'' = Some ob" "ob \<noteq> []"
    and "get_json req = Inr decoded"
    and "handle_options decoded = Inl e"
  shows "payload_fields (get_json req) = Inr defaults \<and>
         create_class cl req st = issue_ticket cl i c ob defaults st \<and>
         create_class cl req st = create_class cl (req\<lparr>get_json := Inr (JObj [])\<rparr>) st \<and>
         (\<exists>ops. snd (snd (create_class cl req st)) = snd st @ ClassGet (i @ ''.'' @ c) # ops)"
proof -
  from assms(7,8) have p: "payload_fields (get_json req) = Inr defaults"
    by (simp add: payload_fields_def handle_options_empty)
  from assms(1-6) p have e: "create_class cl req st = issue_ticket cl i c ob defaults st"
    by (rule create_class_present)
  have "payload_fields (get_json (req\<lparr>get_json := Inr (JObj [])\<rparr>)) = Inr defaults"
    by (simp add: payload_fields_def handle_options_empty)
  with assms(1-6)
  have e0: "create_class cl (req\<lparr>get_json := Inr (JObj [])\<rparr>) st = issue_ticket cl i c ob defaults st"
    by (intro create_class_present) simp_all
  obtain resp st' where r: "issue_ticket cl i c ob defaults st = (resp, st')"
    by (cases "issue_ticket cl i c ob defaults st") auto
  from issue_ticket_trace [OF r] e e0 r p show ?thesis by simp
qed

theorem raising_payload_is_discarded_witness:
  "handle_options (JObj [(''event_name'', JStr ''Launch''), (''banner'', JObj [])]) = Inl TypeError \<and>
   payload_fields (Inr (JObj [(''event_name'', JStr ''Launch''), (''banner'', JObj [])])) =
     Inr defaults \<and>
   create_class recording_backend
      (request_for (Inr (JObj [(''event_name'', JStr ''Launch''), (''banner'', JObj [])])))
      ([], []) =
     (Response 200
        (JObj [(''status'', JStr ''success''), (''message'', JStr ''JWT successfully generated.''),
               (''wallet_link'', JStr ''https://pay.google.com/gp/v/save/tok'')]),
      ([JStr ''Event Name'', JStr ''Issuer Name'',
        JStr ''https://farm4.staticflickr.com/3723/11177041115_6e6a3b6f49_o.jpg'',
        JStr ''https://farm4.staticflickr.com/3723/11177041115_6e6a3b6f49_o.jpg'',
        JStr ''Text module header'', JStr ''Text module body'',
        JStr ''http://maps.google.com/'', JStr ''9876543210'',
        JStr ''http://farm4.staticflickr.com/3738/12440799783_3dc3c20606_b.jpg'',
        JStr ''0'', JStr ''0'', JStr ''0'', JStr ''0'',
        JStr ''Ticket Holder Name'', JStr ''ABC123456789''],
       [ClassGet ''I.C'', ClassInsert ''I.C'', ObjectGet ''I.O'', ObjectInsert ''I.O'' ''I.C'',
        JwtSign ''I.O'' ''I.C'']))"
proof -
  let ?J = "JObj [(''event_name'', JStr ''Launch''), (''banner'', JObj [])]"
  let ?R = "request_for (Inr ?J)"
  have a: "args ?R ''issuer_id'' = Some ''I''" "''I'' \<noteq> []"
    "args ?R ''class_suffix'' = Some ''C''" "''C'' \<noteq> []"
    "args ?R ''object_suffix'' = Some ''O''" "''O'' \<noteq> []"
    by (simp_all add: request_for_def)
  have g: "get_json ?R = Inr ?J" by (simp add: request_for_def)
  have h: "handle_options ?J = Inl TypeError" by (simp add: run_handle_options)
  have run: "issue_ticket recording_backend ''I'' ''C'' ''O'' defaults ([], []) =
     (Response 200
        (JObj [(''status'', JStr ''success''), (''message'', JStr ''JWT successfully generated.''),
               (''wallet_link'', JStr ''https://pay.google.com/gp/v/save/tok'')]),
      ([JStr ''Event Name'', JStr ''Issuer Name'',
        JStr ''https://farm4.staticflickr.com/3723/11177041115_6e6a3b6f49_o.jpg'',
        JStr ''https://farm4.staticflickr.com/3723/11177041115_6e6a3b6f49_o.jpg'',
        JStr ''Text module header'', JStr ''Text module body'',
        JStr ''http://maps.google.com/'', JStr ''9876543210'',
        JStr ''http://farm4.staticflickr.com/3738/12440799783_3dc3c20606_b.jpg'',
        JStr ''0'', JStr ''0'', JStr ''0'', JStr ''0'',
        JStr ''Ticket Holder Name'', JStr ''ABC123456789''],
       [ClassGet ''I.C'', ClassInsert ''I.C'', ObjectGet ''I.O'', ObjectInsert ''I.O'' ''I.C'',
        JwtSign ''I.O'' ''I.C'']))"
    by (simp add: run_endpoint recording_backend_def)
  from raising_payload_is_discarded [OF a g h, of recording_backend "([], [])"] g h run show ?thesis by simp
qed

text \<open>
  For C2: when the class does not exist and its insert raises, the response is the fixed
  HTTP 500 and object creation is never requested; and when the object exists, so that
  its \<open>has_error\<close> is true, and the signing raises, the response is the fixed HTTP 500
  and not the object-creation envelope. The response is not decided by the flag alone.
\<close>

theorem collaborator_failure_gives_500:
  "create_class
      (fixed_backend (Inl (HttpError 404 JNull)) (Inl (HttpError 403 JNull)) (Inr JNull) (Inr JNull)
         (Inr ''tok''))
      (request_for (Inr (JObj []))) ((), []) =
     (Response 500 (JObj [(''error'', JStr ''An error occurred while creating the class.'')]),
      ((), [ClassGet ''I.C'', ClassInsert ''I.C''])) \<and>
   create_class
      (fixed_backend (Inr JNull) (Inr JNull) (Inr JNull) (Inr JNull) (Inl OtherError))
      (request_for (Inr (JObj []))) ((), []) =
     (Response 500 (JObj [(''error'', JStr ''An error occurred while creating the class.'')]),
      ((), [ClassGet ''I.C'', ObjectGet ''I.O'', JwtSign ''I.O'' ''I.C'']))"
  by (simp add: run_endpoint)

text \<open>
  C2, as the code has it. With all three identifiers present, class creation is requested
  and its envelope is never read: object creation is requested next whatever the envelope
  reports. When the three collaborator calls return, the response is HTTP 200 with the
  object-creation envelope when its \<open>has_error\<close> is true and the save-link result
  otherwise. When one of the calls raises, the response is the fixed HTTP 500 and the
  calls after it are not made.
\<close>

theorem response_decided_by_object_flag:
  assumes "args req ''issuer_id'' = Some i" "i \<noteq> []"
    and "args req ''class_suffix'' = Some c" "c \<noteq> []"
    and "args req ''object_suffix'' = Some ob" "ob \<noteq> []"
    and "payload_fields (get_json req) = Inr data"
    and "ticket_create_class cl i c data st = (r1, st1)"
    and "ticket_create_object cl i c ob data st1 = (r2, st2)"
    and "ticket_create_jwt_existing_objects cl i ob c st2 = (r3, st3)"
  shows "create_class cl req st =
     (case r1 of
        Inl e \<Rightarrow> (server_error, st1)
      | Inr cc \<Rightarrow>
          (case r2 of
             Inl e \<Rightarrow> (server_error, st2)
           | Inr co \<Rightarrow>
               (case r3 of
                  Inl e \<Rightarrow> (server_error, st3)
                | Inr ce \<Rightarrow>
                    (Response 200
                       (JObj (if map_of co ''has_error'' = Some (JBool True) then co else ce)),
                     st3)))) \<and>
    (\<exists>ops. snd st2 = snd st1 @ ObjectGet (i @ ''.'' @ ob) # ops)"
proof -
  from assms(1-7) have e: "create_class cl req st = issue_ticket cl i c ob data st"
    by (rule create_class_present)
  have flag: "\<exists>b. map_of co ''has_error'' = Some (JBool b)" if "r2 = Inr co" for co
    using assms(9) that create_object_has_error by blast
  have "issue_ticket cl i c ob data st =
     (case r1 of
        Inl e \<Rightarrow> (server_error, st1)
      | Inr cc \<Rightarrow>
          (case r2 of
             Inl e \<Rightarrow> (server_error, st2)
           | Inr co \<Rightarrow>
               (case r3 of
                  Inl e \<Rightarrow> (server_error, st3)
                | Inr ce \<Rightarrow>
                    (Response 200
                       (JObj (if map_of co ''has_error'' = Some (JBool True) then co else ce)),
                     st3))))"
    using assms(8-10) flag by (auto simp: issue_ticket_def split: sum.splits)
  with e create_object_first_op [OF assms(9)] show ?thesis by simp
qed

theorem response_decided_by_object_flag_witness:
  "fst (ticket_create_class
      (fixed_backend (Inr JNull) (Inr JNull) (Inl (HttpError 404 JNull)) (Inr (JStr ''object''))
         (Inr ''tok''))
      ''I'' ''C'' (dict_set ''event_name'' (JStr ''Launch'') defaults) ((), [])) =
     Inr [(''status'', JStr ''exists''), (''message'', JStr ''The class already exists.''),
          (''issuer_id'', JStr ''I''), (''class_suffix'', JStr ''C''),
          (''class_id'', JStr ''I.C''), (''has_error'', JBool True)] \<and>
   create_class
      (fixed_backend (Inr JNull) (Inr JNull) (Inl (HttpError 404 JNull)) (Inr (JStr ''object''))
         (Inr ''tok''))
      (request_for (Inr (JObj [(''event_name'', JStr ''Launch'')]))) ((), []) =
     (Response 200
        (JObj [(''status'', JStr ''success''), (''message'', JStr ''JWT successfully generated.''),
               (''wallet_link'', JStr ''https://pay.google.com/gp/v/save/tok'')]),
      ((), [ClassGet ''I.C'', ObjectGet ''I.O'', ObjectInsert ''I.O'' ''I.C'',
            JwtSign ''I.O'' ''I.C''])) \<and>
   create_class
      (fixed_backend (Inl (HttpError 404 JNull)) (Inl (HttpError 403 JNull)) (Inr JNull) (Inr JNull)
         (Inr ''tok''))
      (request_for (Inr (JObj []))) ((), []) =
     (Response 500 (JObj [(''error'', JStr ''An error occurred while creating the class.'')]),
      ((), [ClassGet ''I.C'', ClassInsert ''I.C'']))"
proof -
  let ?B = "fixed_backend (Inr JNull) (Inr JNull) (Inl (HttpError 404 JNull)) (Inr (JStr ''object''))
         (Inr ''tok'')"
  let ?R = "request_for (Inr (JObj [(''event_name'', JStr ''Launch'')]))"
  let ?D = "dict_set ''event_name'' (JStr ''Launch'') defaults"
  let ?cc = "[(''status'', JStr ''exists''), (''message'', JStr ''The class already exists.''),
          (''issuer_id'', JStr ''I''), (''class_suffix'', JStr ''C''),
          (''class_id'', JStr ''I.C''), (''has_error'', JBool True)]"
  let ?co = "[(''object_id'', JStr ''I.O''), (''status'', JStr ''created''),
              (''message'', JStr ''Object created successfully.''), (''has_error'', JBool False),
              (''response'', JStr ''object'')]"
  let ?ce = "[(''status'', JStr ''success''), (''message'', JStr ''JWT successfully generated.''),
              (''wallet_link'', JStr ''https://pay.google.com/gp/v/save/tok'')]"
  let ?B' = "fixed_backend (Inl (HttpError 404 JNull)) (Inl (HttpError 403 JNull)) (Inr JNull)
         (Inr JNull) (Inr ''tok'')"
  let ?R' = "request_for (Inr (JObj []))"
  let ?co' = "[(''object_id'', JStr ''I.O''), (''status'', JStr ''exists''),
              (''message'', JStr ''Object I.O already exists!''), (''has_error'', JBool True)]"
  have a: "args ?R ''issuer_id'' = Some ''I''" "''I'' \<noteq> []"
    "args ?R ''class_suffix'' = Some ''C''" "''C'' \<noteq> []"
    "args ?R ''object_suffix'' = Some ''O''" "''O'' \<noteq> []"
    by (simp_all add: request_for_def)
  have a': "args ?R' ''issuer_id'' = Some ''I''" "''I'' \<noteq> []"
    "args ?R' ''class_suffix'' = Some ''C''" "''C'' \<noteq> []"
    "args ?R' ''object_suffix'' = Some ''O''" "''O'' \<noteq> []"
    by (simp_all add: request_for_def)
  have p: "payload_fields (get_json ?R) = Inr ?D"
    by (simp add: request_for_def payload_fields_def run_handle_options)
  have p': "payload_fields (get_json ?R') = Inr defaults"
    by (simp add: request_for_def payload_fields_def handle_options_empty)
  have c1: "ticket_create_class ?B ''I'' ''C'' ?D ((), []) = (Inr ?cc, ((), [ClassGet ''I.C'']))"
    by (simp add: run_endpoint)
  have c2: "ticket_create_object ?B ''I'' ''C'' ''O'' ?D ((), [ClassGet ''I.C'']) =
      (Inr ?co, ((), [ClassGet ''I.C'', ObjectGet ''I.O'', ObjectInsert ''I.O'' ''I.C'']))"
    by (simp add: run_endpoint)
  have c3: "ticket_create_jwt_existing_objects ?B ''I'' ''O'' ''C''
       ((), [ClassGet ''I.C'', ObjectGet ''I.O'', ObjectInsert ''I.O'' ''I.C'']) =
      (Inr ?ce, ((), [ClassGet ''I.C'', ObjectGet ''I.O'', ObjectInsert ''I.O'' ''I.C'',
                      JwtSign ''I.O'' ''I.C'']))"
    by (simp add: run_endpoint)
  have c1': "ticket_create_class ?B' ''I'' ''C'' defaults ((), []) =
      (Inl (HttpError 403 JNull), ((), [ClassGet ''I.C'', ClassInsert ''I.C'']))"
    by (simp add: run_endpoint)
  have c2': "ticket_create_object ?B' ''I'' ''C'' ''O'' defaults
       ((), [ClassGet ''I.C'', ClassInsert ''I.C'']) =
      (Inr ?co', ((), [ClassGet ''I.C'', ClassInsert ''I.C'', ObjectGet ''I.O'']))"
    by (simp add: run_endpoint)
  have c3': "ticket_create_jwt_existing_objects ?B' ''I'' ''O'' ''C''
       ((), [ClassGet ''I.C'', ClassInsert ''I.C'', ObjectGet ''I.O'']) =
      (Inr ?ce, ((), [ClassGet ''I.C'', ClassInsert ''I.C'', ObjectGet ''I.O'',
                      JwtSign ''I.O'' ''I.C'']))"
    by (simp add: run_endpoint)
  from response_decided_by_object_flag [OF a p c1 c2 c3] response_decided_by_object_flag [OF a' p' c1' c2' c3'] c1
  show ?thesis by (simp add: server_error_def)
qed

text \<open>
  For C1: the object exists already, and the run still performs the save-link signing.
\<close>

theorem save_link_attempted_for_existing_object:
  "create_class (fixed_backend (Inr JNull) (Inr JNull) (Inr JNull) (Inr JNull) (Inr ''tok''))
      (request_for (Inr (JObj []))) ((), []) =
     (Response 200
        (JObj [(''object_id'', JStr ''I.O''), (''status'', JStr ''exists''),
               (''message'', JStr ''Object I.O already exists!''), (''has_error'', JBool True)]),
      ((), [ClassGet ''I.C'', ObjectGet ''I.O'', JwtSign ''I.O'' ''I.C'']))"
  by (simp add: run_endpoint)

text \<open>
  C1, as the code has it. When object creation reports status \<open>exists\<close>, its
  \<open>has_error\<close> is true and the save link is requested all the same, before the flag is
  read. When the save link returns, the response is HTTP 200 with the object-creation
  envelope; when it raises, the response is the fixed HTTP 500.
\<close>

theorem existing_object_envelope_returned:
  assumes "args req ''issuer_id'' = Some i" "i \<noteq> []"
    and "args req ''class_suffix'' = Some c" "c \<noteq> []"
    and "args req ''object_suffix'' = Some ob" "ob \<noteq> []"
    and "payload_fields (get_json req) = Inr data"
    and "ticket_create_class cl i c data st = (Inr cc, st1)"
    and "ticket_create_object cl i c ob data st1 = (Inr co, st2)"
    and "map_of co ''status'' = Some (JStr ''exists'')"
    and "ticket_create_jwt_existing_objects cl i ob c st2 = (res, st3)"
  shows "map_of co ''has_error'' = Some (JBool True) \<and>
         snd st3 = snd st2 @ [JwtSign (i @ ''.'' @ ob) (i @ ''.'' @ c)] \<and>
         create_class cl req st =
           ((case res of Inl e \<Rightarrow> server_error | Inr ce \<Rightarrow> Response 200 (JObj co)), st3)"
proof -
  from assms(9,10) have flag: "map_of co ''has_error'' = Some (JBool True)"
    by (rule create_object_exists_flag)
  from assms(11) have tr: "snd st3 = snd st2 @ [JwtSign (i @ ''.'' @ ob) (i @ ''.'' @ c)]"
    by (rule create_jwt_trace)
  from assms(1-7) have "create_class cl req st = issue_ticket cl i c ob data st"
    by (rule create_class_present)
  also from assms(8,9,11) flag have "\<dots> =
      ((case res of Inl e \<Rightarrow> server_error | Inr ce \<Rightarrow> Response 200 (JObj co)), st3)"
    by (simp add: issue_ticket_def split: sum.splits)
  finally show ?thesis using flag tr by simp
qed

theorem existing_object_envelope_returned_witness:
  "create_class
      (fixed_backend (Inl (HttpError 404 JNull)) (Inr (JStr ''class'')) (Inr JNull) (Inr JNull)
         (Inr ''tok''))
      (request_for (Inr (JObj []))) ((), []) =
     (Response 200
        (JObj [(''object_id'', JStr ''I.O''), (''status'', JStr ''exists''),
               (''message'', JStr ''Object I.O already exists!''), (''has_error'', JBool True)]),
      ((), [ClassGet ''I.C'', ClassInsert ''I.C'', ObjectGet ''I.O'', JwtSign ''I.O'' ''I.C'']))"
proof -
  let ?B = "fixed_backend (Inl (HttpError 404 JNull)) (Inr (JStr ''class'')) (Inr JNull) (Inr JNull)
         (Inr ''tok'')"
  let ?R = "request_for (Inr (JObj []))"
  let ?co = "[(''object_id'', JStr ''I.O''), (''status'', JStr ''exists''),
              (''message'', JStr ''Object I.O already exists!''), (''has_error'', JBool True)]"
  let ?cc = "[(''status'', JStr ''created''), (''message'', JStr ''Class successfully created.''),
              (''issuer_id'', JStr ''I''), (''class_suffix'', JStr ''C''),
              (''class_id'', JStr ''I.C''), (''response'', JStr ''class''),
              (''has_error'', JBool False)]"
  let ?ce = "[(''status'', JStr ''success''), (''message'', JStr ''JWT successfully generated.''),
              (''wallet_link'', JStr ''https://pay.google.com/gp/v/save/tok'')]"
  have a: "args ?R ''issuer_id'' = Some ''I''" "''I'' \<noteq> []"
    "args ?R ''class_suffix'' = Some ''C''" "''C'' \<noteq> []"
    "args ?R ''object_suffix'' = Some ''O''" "''O'' \<noteq> []"
    by (simp_all add: request_for_def)
  have p: "payload_fields (get_json ?R) = Inr defaults"
    by (simp add: request_for_def payload_fields_def handle_options_empty)
  have c1: "ticket_create_class ?B ''I'' ''C'' defaults ((), []) =
      (Inr ?cc, ((), [ClassGet ''I.C'', ClassInsert ''I.C'']))"
    by (simp add: run_endpoint)
  have c2: "ticket_create_object ?B ''I'' ''C'' ''O'' defaults ((), [ClassGet ''I.C'', ClassInsert ''I.C'']) =
      (Inr ?co, ((), [ClassGet ''I.C'', ClassInsert ''I.C'', ObjectGet ''I.O'']))"
    by (simp add: run_endpoint)
  have s: "map_of ?co ''status'' = Some (JStr ''exists'')" by simp
  have c3: "ticket_create_jwt_existing_objects ?B ''I'' ''O'' ''C''
       ((), [ClassGet ''I.C'', ClassInsert ''I.C'', ObjectGet ''I.O'']) =
      (Inr ?ce, ((), [ClassGet ''I.C'', ClassInsert ''I.C'', ObjectGet ''I.O'', JwtSign ''I.O'' ''I.C'']))"
    by (simp add: run_endpoint)
  from existing_object_envelope_returned [OF a p c1 c2 s c3] show ?thesis by simp
qed

end
